theory Spec2Isabelle
  imports Main "HOL-Library.Word"
begin

section \<open>Paths, exceptions and console output\<close>

text \<open>
  The two scripts (\<^verbatim>\<open>scripts/copy_firmware.py\<close>, run by hand, and
  \<^verbatim>\<open>firmware/copy_firmware.py\<close>, a PlatformIO post-build action) copy
  \<^verbatim>\<open>firmware.bin\<close> and \<^verbatim>\<open>spiffs.bin\<close> from the build directory into
  \<^verbatim>\<open>firmware/\<close>. A \<^verbatim>\<open>pathlib.Path\<close> is modelled as the list of its components
  below the root; all paths are absolute.
\<close>

type_synonym path = "string list"

text \<open>\<^verbatim>\<open>Path.parent\<close>: the parent of the root is the root.\<close>

definition path_parent :: "path \<Rightarrow> path" where
  "path_parent p = butlast p"

text \<open>\<^verbatim>\<open>p / c\<close> for a single component \<open>c\<close>.\<close>

definition path_join :: "path \<Rightarrow> string \<Rightarrow> path" where
  "path_join p c = p @ [c]"

text \<open>\<^verbatim>\<open>Path.name\<close>: the last component, empty for the root.\<close>

definition path_name :: "path \<Rightarrow> string" where
  "path_name p = (if p = [] then [] else last p)"

text \<open>
  The exceptions the library calls of the scripts raise. All of them are subclasses of
  \<^verbatim>\<open>Exception\<close>, so \<^verbatim>\<open>except Exception\<close> catches each one. \<open>OSError n\<close> is any
  other operating-system error, with its errno (28 is \<^verbatim>\<open>ENOSPC\<close>, disk full).
\<close>

datatype exn =
    FileNotFoundError
  | FileExistsError
  | PermissionError
  | IsADirectoryError
  | NotADirectoryError
  | SameFileError
  | OSError nat

text \<open>
  One constructor per \<^verbatim>\<open>print\<close> call of the scripts, with the values the f-string
  interpolates: the artifact's label, the source's file name, the size in bytes, the
  exception, the count.
\<close>

datatype report_line =
    Rule
  | Banner
  | Copied string string nat
  | Not_found string string
  | Error_copying string exn
  | Summary int
  | Ready
  | No_files_copied

text \<open>
  The state a run reads and changes: the file system (of any type \<open>'s\<close>) and the lines
  printed so far. \<^verbatim>\<open>print\<close> appends a line and does not fail.
\<close>

record 's world =
  fsys :: 's
  stdout :: "report_line list"

definition print_line :: "report_line \<Rightarrow> 's world \<Rightarrow> 's world" where
  "print_line l w = w\<lparr>stdout := stdout w @ [l]\<rparr>"

section \<open>The library calls\<close>

text \<open>
  The scripts reach the file system through four library calls only. Each takes the
  file-system state; a call that raises returns \<open>Inl\<close> of the exception. A call that
  changes the file system returns the new state also when it raises, since a failed
  copy may leave a partial file behind.
  \<^item> \<open>path_mkdir\<close>: \<^verbatim>\<open>Path.mkdir(exist_ok=True)\<close>;
  \<^item> \<open>path_exists\<close>: \<^verbatim>\<open>Path.exists()\<close>;
  \<^item> \<open>shutil_copy2\<close>: \<^verbatim>\<open>shutil.copy2(src, dst)\<close>;
  \<^item> \<open>path_stat_size\<close>: \<^verbatim>\<open>Path.stat().st_size\<close>.
  The scripts are modelled over any implementation of the four calls, so that what is
  proved of their control flow holds whatever the calls do; \<open>posix\<close> below is the
  implementation over a concrete file system.
\<close>

record 's pylib =
  path_mkdir :: "path \<Rightarrow> 's \<Rightarrow> (exn + unit) \<times> 's"
  path_exists :: "path \<Rightarrow> 's \<Rightarrow> exn + bool"
  shutil_copy2 :: "path \<Rightarrow> path \<Rightarrow> 's \<Rightarrow> (exn + unit) \<times> 's"
  path_stat_size :: "path \<Rightarrow> 's \<Rightarrow> exn + nat"

section \<open>The standalone script\<close>

text \<open>An entry of \<^verbatim>\<open>files_to_copy\<close>: a dict with the keys source, dest and name.\<close>

record file_info =
  source :: path
  dest :: path
  name :: string

definition files_to_copy :: "path \<Rightarrow> path \<Rightarrow> file_info list" where
  "files_to_copy build_dir firmware_dir =
     [\<lparr>source = path_join build_dir ''firmware.bin'',
       dest = path_join firmware_dir ''firmware.bin'',
       name = ''Main firmware''\<rparr>,
      \<lparr>source = path_join build_dir ''spiffs.bin'',
       dest = path_join firmware_dir ''spiffs.bin'',
       name = ''SPIFFS filesystem''\<rparr>]"

text \<open>
  The body of the \<^verbatim>\<open>try\<close> (lines 50 to 56): it returns the new value of
  \<^verbatim>\<open>success_count\<close>, or the exception a call raised, with the world as the call left it.
\<close>

definition try_body ::
  "'s pylib \<Rightarrow> file_info \<Rightarrow> int \<Rightarrow> 's world \<Rightarrow> (exn + int) \<times> 's world" where
  "try_body lib fi success_count w =
     (case path_exists lib (source fi) (fsys w) of
        Inl e \<Rightarrow> (Inl e, w)
      | Inr found \<Rightarrow>
          if found then
            (case shutil_copy2 lib (source fi) (dest fi) (fsys w) of
               (Inl e, s) \<Rightarrow> (Inl e, w\<lparr>fsys := s\<rparr>)
             | (Inr _, s) \<Rightarrow>
                 (case path_stat_size lib (dest fi) s of
                    Inl e \<Rightarrow> (Inl e, w\<lparr>fsys := s\<rparr>)
                  | Inr file_size \<Rightarrow>
                      (Inr (success_count + 1),
                       print_line (Copied (name fi) (path_name (source fi)) file_size)
                         (w\<lparr>fsys := s\<rparr>))))
          else
            (Inr success_count,
             print_line (Not_found (name fi) (path_name (source fi))) w))"

text \<open>
  One iteration of the loop (lines 44 to 59): the \<^verbatim>\<open>try\<close> with its
  \<^verbatim>\<open>except Exception as e\<close> handler, which prints the error and leaves
  \<^verbatim>\<open>success_count\<close> as it was. Like every Python statement the iteration either
  completes or raises, hence the result type.
\<close>

definition loop_body ::
  "'s pylib \<Rightarrow> file_info \<Rightarrow> int \<Rightarrow> 's world \<Rightarrow> (exn + int) \<times> 's world" where
  "loop_body lib fi success_count w =
     (case try_body lib fi success_count w of
        (Inl e, w') \<Rightarrow> (Inr success_count, print_line (Error_copying (name fi) e) w')
      | (Inr c, w') \<Rightarrow> (Inr c, w'))"

text \<open>
  \<^verbatim>\<open>for file_info in files_to_copy\<close>: an iteration that raised would end the loop and
  pass the exception on.
\<close>

fun for_loop ::
  "'s pylib \<Rightarrow> file_info list \<Rightarrow> int \<Rightarrow> 's world \<Rightarrow> (exn + int) \<times> 's world" where
  "for_loop lib [] success_count w = (Inr success_count, w)"
| "for_loop lib (fi # rest) success_count w =
     (case loop_body lib fi success_count w of
        (Inl e, w') \<Rightarrow> (Inl e, w')
      | (Inr c, w') \<Rightarrow> for_loop lib rest c w')"

text \<open>The summary after the loop (lines 61 to 67).\<close>

definition print_summary :: "int \<Rightarrow> 's world \<Rightarrow> 's world" where
  "print_summary success_count w =
     print_line Rule
       (if success_count > 0
        then print_line Ready (print_line (Summary success_count) w)
        else print_line No_files_copied w)"

text \<open>
  \<^verbatim>\<open>copy_firmware_files()\<close> of the standalone script. \<open>script_file\<close> is the script's
  \<^verbatim>\<open>__file__\<close>. The directory is created before the \<^verbatim>\<open>try\<close>, so an exception of
  \<^verbatim>\<open>mkdir\<close> leaves the function.
\<close>

definition copy_firmware_files ::
  "'s pylib \<Rightarrow> path \<Rightarrow> 's world \<Rightarrow> (exn + int) \<times> 's world" where
  "copy_firmware_files lib script_file w0 =
     (let w1 = print_line Banner (print_line Rule w0);
          script_dir = path_parent script_file;
          project_dir = path_parent script_dir;
          build_dir =
            path_join (path_join (path_join project_dir ''.pio'') ''build'')
              ''esp32doit-devkit-v1'';
          firmware_dir = path_join project_dir ''firmware''
      in case path_mkdir lib firmware_dir (fsys w1) of
           (Inl e, s) \<Rightarrow> (Inl e, w1\<lparr>fsys := s\<rparr>)
         | (Inr _, s) \<Rightarrow>
             (case for_loop lib (files_to_copy build_dir firmware_dir) 0 (w1\<lparr>fsys := s\<rparr>) of
                (Inl e, w2) \<Rightarrow> (Inl e, w2)
              | (Inr success_count, w2) \<Rightarrow>
                  (Inr success_count, print_summary success_count w2)))"

text \<open>
  The \<^verbatim>\<open>__main__\<close> block: \<^verbatim>\<open>sys.exit(0 if success_count > 0 else 1)\<close>. An exception
  that leaves \<^verbatim>\<open>copy_firmware_files\<close> is not caught, and the interpreter then ends
  the process with status 1.
\<close>

definition script_main :: "'s pylib \<Rightarrow> path \<Rightarrow> 's world \<Rightarrow> int \<times> 's world" where
  "script_main lib script_file w =
     (case copy_firmware_files lib script_file w of
        (Inl e, w') \<Rightarrow> (1, w')
      | (Inr success_count, w') \<Rightarrow> (if success_count > 0 then 0 else 1, w'))"

section \<open>The post-build script\<close>

text \<open>
  The PlatformIO environment, of which the script reads \<^verbatim>\<open>env["PROJECT_DIR"]\<close> (here
  already a path) and \<^verbatim>\<open>env["PIOENV"]\<close> (one path component). PlatformIO defines both.
\<close>

record pio_env =
  PROJECT_DIR :: path
  PIOENV :: string

definition pb_files_to_copy :: "path \<Rightarrow> path \<Rightarrow> file_info list" where
  "pb_files_to_copy build_dir firmware_dir =
     [\<lparr>source = path_join build_dir ''firmware.bin'',
       dest = path_join firmware_dir ''firmware.bin'',
       name = ''Main firmware''\<rparr>,
      \<lparr>source = path_join build_dir ''spiffs.bin'',
       dest = path_join firmware_dir ''spiffs.bin'',
       name = ''SPIFFS filesystem''\<rparr>]"

text \<open>Lines 48 to 54 of the post-build script.\<close>

definition pb_try_body ::
  "'s pylib \<Rightarrow> file_info \<Rightarrow> int \<Rightarrow> 's world \<Rightarrow> (exn + int) \<times> 's world" where
  "pb_try_body lib fi success_count w =
     (case path_exists lib (source fi) (fsys w) of
        Inl e \<Rightarrow> (Inl e, w)
      | Inr found \<Rightarrow>
          if found then
            (case shutil_copy2 lib (source fi) (dest fi) (fsys w) of
               (Inl e, s) \<Rightarrow> (Inl e, w\<lparr>fsys := s\<rparr>)
             | (Inr _, s) \<Rightarrow>
                 (case path_stat_size lib (dest fi) s of
                    Inl e \<Rightarrow> (Inl e, w\<lparr>fsys := s\<rparr>)
                  | Inr file_size \<Rightarrow>
                      (Inr (success_count + 1),
                       print_line (Copied (name fi) (path_name (source fi)) file_size)
                         (w\<lparr>fsys := s\<rparr>))))
          else
            (Inr success_count,
             print_line (Not_found (name fi) (path_name (source fi))) w))"

text \<open>Lines 42 to 57 of the post-build script.\<close>

definition pb_loop_body ::
  "'s pylib \<Rightarrow> file_info \<Rightarrow> int \<Rightarrow> 's world \<Rightarrow> (exn + int) \<times> 's world" where
  "pb_loop_body lib fi success_count w =
     (case pb_try_body lib fi success_count w of
        (Inl e, w') \<Rightarrow> (Inr success_count, print_line (Error_copying (name fi) e) w')
      | (Inr c, w') \<Rightarrow> (Inr c, w'))"

fun pb_for_loop ::
  "'s pylib \<Rightarrow> file_info list \<Rightarrow> int \<Rightarrow> 's world \<Rightarrow> (exn + int) \<times> 's world" where
  "pb_for_loop lib [] success_count w = (Inr success_count, w)"
| "pb_for_loop lib (fi # rest) success_count w =
     (case pb_loop_body lib fi success_count w of
        (Inl e, w') \<Rightarrow> (Inl e, w')
      | (Inr c, w') \<Rightarrow> pb_for_loop lib rest c w')"

text \<open>Lines 59 to 65 of the post-build script.\<close>

definition pb_print_summary :: "int \<Rightarrow> 's world \<Rightarrow> 's world" where
  "pb_print_summary success_count w =
     print_line Rule
       (if success_count > 0
        then print_line Ready (print_line (Summary success_count) w)
        else print_line No_files_copied w)"

text \<open>
  \<^verbatim>\<open>copy_firmware_files(source, target, env)\<close> of the post-build script; it does not
  use \<^verbatim>\<open>source\<close> and \<^verbatim>\<open>target\<close>. The function has no \<^verbatim>\<open>return\<close> statement: it
  returns \<^verbatim>\<open>None\<close>, modelled as \<open>None\<close> of type \<open>int option\<close>.
\<close>

definition pb_copy_firmware_files ::
  "'s pylib \<Rightarrow> pio_env \<Rightarrow> 's world \<Rightarrow> (exn + int option) \<times> 's world" where
  "pb_copy_firmware_files lib env w0 =
     (let w1 = print_line Banner (print_line Rule w0);
          project_dir = PROJECT_DIR env;
          build_dir =
            path_join (path_join (path_join project_dir ''.pio'') ''build'') (PIOENV env);
          firmware_dir = path_join project_dir ''firmware''
      in case path_mkdir lib firmware_dir (fsys w1) of
           (Inl e, s) \<Rightarrow> (Inl e, w1\<lparr>fsys := s\<rparr>)
         | (Inr _, s) \<Rightarrow>
             (case pb_for_loop lib (pb_files_to_copy build_dir firmware_dir) 0
                     (w1\<lparr>fsys := s\<rparr>) of
                (Inl e, w2) \<Rightarrow> (Inl e, w2)
              | (Inr success_count, w2) \<Rightarrow>
                  (Inr None, pb_print_summary success_count w2)))"

section \<open>A file system with permissions\<close>

text \<open>
  A file-system node is a regular file (its bytes, and its owner's read and write
  permission bits) or a directory (and whether its owner may create entries in it). The
  script runs as the owner of every node and not as the superuser, so the bits decide
  what it may do. The file system maps each existing path to its node; a path is looked
  up as a whole, and where a call creates an entry the node of the parent path is
  consulted. Links, special files, time stamps, the search permission of a directory and
  the space left on the device are not modelled. So in this model \<^verbatim>\<open>exists()\<close> never
  raises, although the call raises a \<^verbatim>\<open>PermissionError\<close> below a directory that may not
  be searched, and a copy fails for no other reason than a missing or protected node,
  although it also fails on a full device or on a target that is a link to its source.
  A failure for such a reason is covered by the results that hold for every
  implementation of the library calls, which is why what a run returns and prints is
  stated from the outcomes of its calls; the model says what the calls of a run leave
  in a file system of files and directories.
\<close>

datatype node =
    File (content: "8 word list") (readable: bool) (writable: bool)
  | Dir (dir_writable: bool)

type_synonym filesystem = "path \<Rightarrow> node option"

definition is_dir :: "filesystem \<Rightarrow> path \<Rightarrow> bool" where
  "is_dir fs p = (case fs p of Some (Dir _) \<Rightarrow> True | _ \<Rightarrow> False)"

text \<open>
  \<^verbatim>\<open>Path.mkdir(exist_ok=True)\<close>, with \<^verbatim>\<open>parents=False\<close>: \<^verbatim>\<open>os.mkdir\<close> fails when the
  parent is missing or is no directory, when the path exists, and when the parent may
  not be written. \<^verbatim>\<open>pathlib\<close> passes every error on, except that of an existing path
  that \<^verbatim>\<open>is_dir()\<close>. A new directory is writable by its owner.
\<close>

definition posix_mkdir :: "path \<Rightarrow> filesystem \<Rightarrow> (exn + unit) \<times> filesystem" where
  "posix_mkdir p fs =
     (case fs (path_parent p) of
        None \<Rightarrow> (Inl FileNotFoundError, fs)
      | Some (File _ _ _) \<Rightarrow> (Inl NotADirectoryError, fs)
      | Some (Dir pw) \<Rightarrow>
          (case fs p of
             Some (Dir _) \<Rightarrow> (Inr (), fs)
           | Some (File _ _ _) \<Rightarrow> (Inl FileExistsError, fs)
           | None \<Rightarrow>
               if pw then (Inr (), fs(p \<mapsto> Dir True)) else (Inl PermissionError, fs)))"

text \<open>
  \<^verbatim>\<open>Path.exists()\<close>: whether the path has a node. Every directory of the model may be
  searched, so the call returns.
\<close>

definition posix_exists :: "path \<Rightarrow> filesystem \<Rightarrow> exn + bool" where
  "posix_exists p fs = Inr (fs p \<noteq> None)"

text \<open>
  \<^verbatim>\<open>shutil.copyfile(src, target)\<close> followed by \<^verbatim>\<open>shutil.copystat(src, target)\<close>,
  as \<^verbatim>\<open>copy2\<close> calls them. \<^verbatim>\<open>copyfile\<close> refuses to copy a file onto itself, opens
  the source for reading and then the target for writing (creating or truncating it),
  and copies the bytes; \<^verbatim>\<open>copystat\<close> then gives the target the source's permission
  bits. Nothing is changed when one of the two \<^verbatim>\<open>open\<close> calls fails.
\<close>

definition posix_copyfile :: "path \<Rightarrow> path \<Rightarrow> filesystem \<Rightarrow> (exn + unit) \<times> filesystem" where
  "posix_copyfile src target fs =
     (if fs src \<noteq> None \<and> src = target then (Inl SameFileError, fs)
      else
        case fs src of
          None \<Rightarrow> (Inl FileNotFoundError, fs)
        | Some (Dir _) \<Rightarrow> (Inl IsADirectoryError, fs)
        | Some (File c r w) \<Rightarrow>
            if \<not> r then (Inl PermissionError, fs)
            else
              (case fs target of
                 Some (Dir _) \<Rightarrow> (Inl IsADirectoryError, fs)
               | Some (File _ _ tw) \<Rightarrow>
                   if tw then (Inr (), fs(target \<mapsto> File c r w))
                   else (Inl PermissionError, fs)
               | None \<Rightarrow>
                   (case fs (path_parent target) of
                      None \<Rightarrow> (Inl FileNotFoundError, fs)
                    | Some (File _ _ _) \<Rightarrow> (Inl NotADirectoryError, fs)
                    | Some (Dir pw) \<Rightarrow>
                        if pw then (Inr (), fs(target \<mapsto> File c r w))
                        else (Inl PermissionError, fs))))"

text \<open>
  \<^verbatim>\<open>shutil.copy2(src, dst)\<close>: a \<^verbatim>\<open>dst\<close> that is a directory stands for the file of
  the source's name in it.
\<close>

definition posix_copy2 :: "path \<Rightarrow> path \<Rightarrow> filesystem \<Rightarrow> (exn + unit) \<times> filesystem" where
  "posix_copy2 src dst fs =
     posix_copyfile src (if is_dir fs dst then path_join dst (path_name src) else dst) fs"

text \<open>
  \<^verbatim>\<open>Path.stat().st_size\<close>: the number of bytes of a file. The size a directory reports
  depends on the file system; 4096 stands for it.
\<close>

definition dir_size :: nat where
  "dir_size = 4096"

definition posix_stat_size :: "path \<Rightarrow> filesystem \<Rightarrow> exn + nat" where
  "posix_stat_size p fs =
     (case fs p of
        None \<Rightarrow> Inl FileNotFoundError
      | Some (File c _ _) \<Rightarrow> Inr (length c)
      | Some (Dir _) \<Rightarrow> Inr dir_size)"

definition posix :: "filesystem pylib" where
  "posix =
     \<lparr>path_mkdir = posix_mkdir, path_exists = posix_exists,
      shutil_copy2 = posix_copy2, path_stat_size = posix_stat_size\<rparr>"

section \<open>Reading a run\<close>

text \<open>The number of artifacts a report says were copied.\<close>

fun is_copied :: "report_line \<Rightarrow> bool" where
  "is_copied (Copied _ _ _) = True"
| "is_copied _ = False"

definition copied_lines :: "report_line list \<Rightarrow> int" where
  "copied_lines ls = int (length (filter is_copied ls))"

text \<open>
  The file system after one iteration of the loop over \<open>posix\<close>: the copy is tried
  when the source exists, and what it leaves behind is kept whether it raised or not.
\<close>

definition artifact_fs :: "file_info \<Rightarrow> filesystem \<Rightarrow> filesystem" where
  "artifact_fs fi fs =
     (if fs (source fi) = None then fs
      else snd (posix_copy2 (source fi) (dest fi) fs))"

text \<open>
  The line one iteration of the loop over \<open>posix\<close> prints, and what it adds to the count.
\<close>

definition artifact_report :: "file_info \<Rightarrow> filesystem \<Rightarrow> report_line \<times> int" where
  "artifact_report fi fs =
     (if fs (source fi) = None then (Not_found (name fi) (path_name (source fi)), 0)
      else
        case posix_copy2 (source fi) (dest fi) fs of
          (Inl e, fs') \<Rightarrow> (Error_copying (name fi) e, 0)
        | (Inr u, fs') \<Rightarrow>
            (case posix_stat_size (dest fi) fs' of
               Inl e \<Rightarrow> (Error_copying (name fi) e, 0)
             | Inr n \<Rightarrow> (Copied (name fi) (path_name (source fi)) n, 1)))"

section \<open>Example file systems\<close>

text \<open>
  A project checked out at \<^verbatim>\<open>/proj\<close>, with the script in \<^verbatim>\<open>/proj/scripts\<close> and the
  build directory of the environment \<^verbatim>\<open>esp32doit-devkit-v1\<close>.
\<close>

definition ex_script :: path where
  "ex_script = [''proj'', ''scripts'', ''copy_firmware.py'']"

definition ex_env :: pio_env where
  "ex_env = \<lparr>PROJECT_DIR = [''proj''], PIOENV = ''esp32doit-devkit-v1''\<rparr>"

definition ex_build :: path where
  "ex_build = [''proj'', ''.pio'', ''build'', ''esp32doit-devkit-v1'']"

definition ex_firmware :: path where
  "ex_firmware = [''proj'', ''firmware'']"

text \<open>The project before a build: no build directory, no \<^verbatim>\<open>firmware/\<close>.\<close>

definition fs_checkout :: filesystem where
  "fs_checkout =
     Map.empty([] \<mapsto> Dir True, [''proj''] \<mapsto> Dir True,
       [''proj'', ''scripts''] \<mapsto> Dir True,
       ex_script \<mapsto> File [35, 33] True True)"

text \<open>The build directory exists and holds no artifact.\<close>

definition fs_built :: filesystem where
  "fs_built =
     fs_checkout([''proj'', ''.pio''] \<mapsto> Dir True,
       [''proj'', ''.pio'', ''build''] \<mapsto> Dir True,
       ex_build \<mapsto> Dir True)"

definition fs_both :: filesystem where
  "fs_both =
     fs_built(ex_build @ [''firmware.bin''] \<mapsto> File [1, 2, 3] True True,
       ex_build @ [''spiffs.bin''] \<mapsto> File [4, 5] True True)"

definition fs_firmware_only :: filesystem where
  "fs_firmware_only = fs_built(ex_build @ [''firmware.bin''] \<mapsto> File [1, 2, 3] True True)"

definition fs_spiffs_only :: filesystem where
  "fs_spiffs_only = fs_built(ex_build @ [''spiffs.bin''] \<mapsto> File [4, 5] True True)"

text \<open>Both artifacts built, the first one not readable by the user.\<close>

definition fs_unreadable :: filesystem where
  "fs_unreadable =
     fs_built(ex_build @ [''firmware.bin''] \<mapsto> File [1, 2, 3] False True,
       ex_build @ [''spiffs.bin''] \<mapsto> File [4, 5] True True)"

text \<open>
  Both artifacts built; \<^verbatim>\<open>firmware/\<close> holds a write-protected \<^verbatim>\<open>firmware.bin\<close> of an
  earlier run.
\<close>

definition fs_protected :: filesystem where
  "fs_protected =
     fs_both(ex_firmware \<mapsto> Dir True,
       ex_firmware @ [''firmware.bin''] \<mapsto> File [9] True False)"

text \<open>
  Only \<^verbatim>\<open>firmware.bin\<close> built; \<^verbatim>\<open>firmware/\<close> holds a write-protected
  \<^verbatim>\<open>firmware.bin\<close> and a \<^verbatim>\<open>spiffs.bin\<close> of an earlier run.
\<close>

definition fs_stale :: filesystem where
  "fs_stale =
     fs_firmware_only(ex_firmware \<mapsto> Dir True,
       ex_firmware @ [''firmware.bin''] \<mapsto> File [9] True False,
       ex_firmware @ [''spiffs.bin''] \<mapsto> File [8, 8] True True)"

text \<open>Both artifacts built and write-protected, as a build may leave them.\<close>

definition fs_write_protected :: filesystem where
  "fs_write_protected =
     fs_built(ex_build @ [''firmware.bin''] \<mapsto> File [1, 2, 3] True False,
       ex_build @ [''spiffs.bin''] \<mapsto> File [4, 5] True False)"

text \<open>Nothing but the root directory: the project directory does not exist.\<close>

definition fs_root :: filesystem where
  "fs_root = Map.empty([] \<mapsto> Dir True)"

text \<open>No artifact is built, and \<^verbatim>\<open>firmware\<close> in the project directory is a regular file.\<close>

definition fs_blocked :: filesystem where
  "fs_blocked = fs_built(ex_firmware \<mapsto> File [7] True True)"

definition start :: "filesystem \<Rightarrow> filesystem world" where
  "start fs = \<lparr>fsys = fs, stdout = []\<rparr>"

text \<open>
  A library whose copy fails with \<^verbatim>\<open>ENOSPC\<close> (disk full) after it has created an empty
  target, and is \<open>posix\<close> otherwise.
\<close>

definition disk_full :: "filesystem pylib" where
  "disk_full =
     posix\<lparr>shutil_copy2 :=
       (\<lambda>src dst fs. (Inl (OSError 28), fs(dst \<mapsto> File [] True True)))\<rparr>"

section \<open>Evaluating a run\<close>

lemmas run_defs =
  copy_firmware_files_def script_main_def files_to_copy_def loop_body_def try_body_def
  pb_copy_firmware_files_def pb_files_to_copy_def pb_loop_body_def pb_try_body_def
  print_summary_def pb_print_summary_def print_line_def
  path_parent_def path_join_def path_name_def

lemmas posix_defs =
  posix_def posix_mkdir_def posix_exists_def posix_copy2_def posix_copyfile_def
  posix_stat_size_def is_dir_def

lemmas example_defs =
  ex_script_def ex_env_def ex_build_def ex_firmware_def fs_checkout_def fs_built_def
  fs_both_def fs_firmware_only_def start_def

section \<open>Properties of the artifact loop\<close>

lemma loop_body_returns: "\<exists>c w'. loop_body lib fi n w = (Inr c, w')"
  by (simp add: loop_body_def split: prod.splits sum.splits)

lemma for_loop_returns: "\<exists>c w'. for_loop lib fis n w = (Inr c, w')"
proof (induction fis arbitrary: n w)
  case Nil
  show ?case by simp
next
  case (Cons fi rest)
  obtain c w' where step: "loop_body lib fi n w = (Inr c, w')"
    using loop_body_returns by blast
  from Cons.IH [of c w'] step show ?case by simp
qed

lemma loop_body_count:
  "loop_body lib fi n w = (Inr c, w') \<Longrightarrow> n \<le> c \<and> c \<le> n + 1"
  by (auto simp: loop_body_def try_body_def split: prod.splits sum.splits if_splits)

lemma for_loop_count:
  "for_loop lib fis n w = (Inr c, w') \<Longrightarrow> n \<le> c \<and> c \<le> n + int (length fis)"
proof (induction fis arbitrary: n w)
  case Nil
  then show ?case by simp
next
  case (Cons fi rest)
  obtain c1 w1 where step: "loop_body lib fi n w = (Inr c1, w1)"
    using loop_body_returns by blast
  with Cons.prems have "for_loop lib rest c1 w1 = (Inr c, w')" by simp
  from Cons.IH [OF this] loop_body_count [OF step] show ?case by simp
qed

lemma copied_lines_append [simp]:
  "copied_lines (xs @ ys) = copied_lines xs + copied_lines ys"
  by (simp add: copied_lines_def)

lemma loop_body_copied:
  "loop_body lib fi n w = (Inr c, w') \<Longrightarrow>
     copied_lines (stdout w') = copied_lines (stdout w) + (c - n)"
  by (auto simp: loop_body_def try_body_def print_line_def copied_lines_def
      split: prod.splits sum.splits if_splits)

lemma for_loop_copied:
  "for_loop lib fis n w = (Inr c, w') \<Longrightarrow>
     copied_lines (stdout w') = copied_lines (stdout w) + (c - n)"
proof (induction fis arbitrary: n w)
  case Nil
  then show ?case by simp
next
  case (Cons fi rest)
  obtain c1 w1 where step: "loop_body lib fi n w = (Inr c1, w1)"
    using loop_body_returns by blast
  with Cons.prems have "for_loop lib rest c1 w1 = (Inr c, w')" by simp
  from Cons.IH [OF this] loop_body_copied [OF step] show ?case by simp
qed

lemma print_summary_copied:
  "copied_lines (stdout (print_summary n w)) = copied_lines (stdout w)"
  by (simp add: print_summary_def print_line_def copied_lines_def)

text \<open>
  The shape of every run of the standalone function: either the directory creation
  raised, or the loop ran from a count of 0 and the function returned its count.
\<close>

lemma copy_firmware_files_cases:
  fixes lib :: "'s pylib"
  defines "w1 \<equiv> \<lambda>w :: 's world. print_line Banner (print_line Rule w)"
  defines "pd \<equiv> \<lambda>sf. path_parent (path_parent sf)"
  defines "bd \<equiv> \<lambda>sf. path_join (path_join (path_join (pd sf) ''.pio'') ''build'')
                          ''esp32doit-devkit-v1''"
  defines "fd \<equiv> \<lambda>sf. path_join (pd sf) ''firmware''"
  shows "(\<exists>e s. path_mkdir lib (fd sf) (fsys (w1 w)) = (Inl e, s) \<and>
            copy_firmware_files lib sf w = (Inl e, (w1 w)\<lparr>fsys := s\<rparr>)) \<or>
         (\<exists>u s c w2. path_mkdir lib (fd sf) (fsys (w1 w)) = (Inr u, s) \<and>
            for_loop lib (files_to_copy (bd sf) (fd sf)) 0 ((w1 w)\<lparr>fsys := s\<rparr>) = (Inr c, w2) \<and>
            copy_firmware_files lib sf w = (Inr c, print_summary c w2))"
proof -
  obtain m s where mk: "path_mkdir lib (fd sf) (fsys (w1 w)) = (m, s)"
    by (cases "path_mkdir lib (fd sf) (fsys (w1 w))")
  show ?thesis
  proof (cases m)
    case (Inl e)
    with mk have "copy_firmware_files lib sf w = (Inl e, (w1 w)\<lparr>fsys := s\<rparr>)"
      by (simp add: copy_firmware_files_def Let_def w1_def fd_def pd_def)
    with mk Inl show ?thesis by blast
  next
    case (Inr u)
    obtain c w2 where
      loop: "for_loop lib (files_to_copy (bd sf) (fd sf)) 0 ((w1 w)\<lparr>fsys := s\<rparr>) = (Inr c, w2)"
      using for_loop_returns by blast
    with mk Inr have "copy_firmware_files lib sf w = (Inr c, print_summary c w2)"
      by (simp add: copy_firmware_files_def Let_def w1_def fd_def bd_def pd_def)
    with mk Inr loop show ?thesis by blast
  qed
qed

lemma copy_firmware_files_copied:
  assumes run: "copy_firmware_files lib sf w = (r, w')"
  shows "copied_lines (stdout w') =
           copied_lines (stdout w) + (case r of Inl e \<Rightarrow> 0 | Inr c \<Rightarrow> c)"
proof -
  have w1: "copied_lines (stdout (print_line Banner (print_line Rule w))) = copied_lines (stdout w)"
    by (simp add: print_line_def copied_lines_def)
  from copy_firmware_files_cases [of lib sf w] show ?thesis
  proof (elim disjE exE conjE)
    fix e s
    assume "copy_firmware_files lib sf w =
              (Inl e, (print_line Banner (print_line Rule w))\<lparr>fsys := s\<rparr>)"
    with run w1 show ?thesis by auto
  next
    fix u s c w2
    assume loop: "for_loop lib
        (files_to_copy
          (path_join (path_join (path_join (path_parent (path_parent sf)) ''.pio'') ''build'')
             ''esp32doit-devkit-v1'')
          (path_join (path_parent (path_parent sf)) ''firmware''))
        0 ((print_line Banner (print_line Rule w))\<lparr>fsys := s\<rparr>) = (Inr c, w2)"
      and "copy_firmware_files lib sf w = (Inr c, print_summary c w2)"
    with run for_loop_copied [OF loop] w1 show ?thesis
      by (auto simp: print_summary_copied)
  qed
qed

lemma copy_firmware_files_count:
  assumes run: "copy_firmware_files lib sf w = (Inr c, w')"
  shows "0 \<le> c \<and> c \<le> 2"
proof -
  from copy_firmware_files_cases [of lib sf w] run
  obtain s w2 where "for_loop lib
        (files_to_copy
          (path_join (path_join (path_join (path_parent (path_parent sf)) ''.pio'') ''build'')
             ''esp32doit-devkit-v1'')
          (path_join (path_parent (path_parent sf)) ''firmware''))
        0 ((print_line Banner (print_line Rule w))\<lparr>fsys := s\<rparr>) = (Inr c, w2)"
    by auto
  from for_loop_count [OF this] show ?thesis
    by (simp add: files_to_copy_def)
qed

section \<open>The two scripts share their loop\<close>

lemma pb_try_body_eq: "pb_try_body = try_body"
  by (intro ext) (simp add: pb_try_body_def try_body_def)

lemma pb_loop_body_eq: "pb_loop_body = loop_body"
  by (intro ext) (simp add: pb_loop_body_def loop_body_def pb_try_body_eq)

lemma pb_for_loop_eq: "pb_for_loop lib fis n w = for_loop lib fis n w"
  by (induction fis arbitrary: n w)
    (simp_all add: pb_loop_body_eq split: prod.splits sum.splits)

lemma pb_files_to_copy_eq: "pb_files_to_copy = files_to_copy"
  by (intro ext) (simp add: pb_files_to_copy_def files_to_copy_def)

lemma pb_print_summary_eq: "pb_print_summary = print_summary"
  by (intro ext) (simp add: pb_print_summary_def print_summary_def)

section \<open>The library over the file system\<close>

lemma posix_copy2_unchanged_on_error:
  "posix_copy2 src dst fs = (Inl e, fs') \<Longrightarrow> fs' = fs"
  by (auto simp: posix_copy2_def posix_copyfile_def split: if_splits option.splits node.splits)

lemma posix_stat_after_copy2:
  "posix_copy2 src dst fs = (Inr u, fs') \<Longrightarrow> \<exists>n. posix_stat_size dst fs' = Inr n"
  by (auto simp: posix_copy2_def posix_copyfile_def posix_stat_size_def is_dir_def path_join_def
      split: if_splits option.splits node.splits)

lemma posix_try_body_unchanged_on_error:
  assumes "try_body posix fi n w = (Inl e, w1)"
  shows "w1 = w"
proof (cases "posix_copy2 (source fi) (dest fi) (fsys w)")
  case (Pair r fs')
  show ?thesis
  proof (cases r)
    case (Inl e')
    with Pair posix_copy2_unchanged_on_error [of "source fi" "dest fi" "fsys w" e' fs'] assms
    show ?thesis
      by (auto simp: try_body_def posix_def posix_exists_def split: if_splits)
  next
    case (Inr u)
    with Pair posix_stat_after_copy2 [of "source fi" "dest fi" "fsys w" u fs'] assms
    show ?thesis
      by (auto simp: try_body_def posix_def posix_exists_def split: if_splits)
  qed
qed

lemma loop_body_raised:
  assumes "try_body lib fi n w = (Inl e, w1)"
  shows "loop_body lib fi n w = (Inr n, print_line (Error_copying (name fi) e) w1)"
  using assms by (simp add: loop_body_def)

lemma for_loop_raised:
  assumes "try_body lib fi n w = (Inl e, w1)"
  shows "for_loop lib (fi # rest) n w =
           for_loop lib rest n (print_line (Error_copying (name fi) e) w1)"
  using loop_body_raised [OF assms] by simp

section \<open>What a copy reads and writes\<close>

lemma posix_copyfile_effect:
  "snd (posix_copyfile s t fs) = fs \<or>
   (\<exists>c m. fs s = Some (File c True m) \<and> s \<noteq> t \<and>
      snd (posix_copyfile s t fs) = fs(t \<mapsto> File c True m))"
  by (simp add: posix_copyfile_def split: option.splits node.splits)

text \<open>
  A copy reads the nodes of its source, of its target and of the target's directory; a
  change elsewhere passes through it.
\<close>

lemma posix_copyfile_frame:
  assumes "x \<noteq> s" "x \<noteq> t" "x \<noteq> butlast t"
  shows "posix_copyfile s t (fs(x \<mapsto> v)) =
           (fst (posix_copyfile s t fs), (snd (posix_copyfile s t fs))(x \<mapsto> v))"
proof -
  have tw: "\<And>n. fs(x \<mapsto> v, t \<mapsto> n) = fs(t \<mapsto> n, x \<mapsto> v)"
    using assms(2) by (simp add: fun_upd_twist)
  from assms show ?thesis
    by (auto simp: posix_copyfile_def path_parent_def tw split: option.splits node.splits)
qed

lemma posix_copyfile_twice:
  "snd (posix_copyfile s t (snd (posix_copyfile s t fs))) = snd (posix_copyfile s t fs)"
  by (auto simp: posix_copyfile_def split: option.splits node.splits)

lemma is_dir_upd_other: "x \<noteq> d \<Longrightarrow> is_dir (fs(x \<mapsto> v)) d = is_dir fs d"
  by (simp add: is_dir_def)

lemma is_dir_upd_file: "\<not> is_dir fs d \<Longrightarrow> \<not> is_dir (fs(d \<mapsto> File c r m)) d"
  by (simp add: is_dir_def)

lemma posix_copy2_is_dir:
  "is_dir (snd (posix_copy2 s d fs)) d = is_dir fs d"
proof (cases "is_dir fs d")
  case True
  with posix_copyfile_effect [of s "d @ [path_name s]" fs] show ?thesis
    by (auto simp: posix_copy2_def path_join_def is_dir_upd_other)
next
  case False
  with posix_copyfile_effect [of s d fs] show ?thesis
    by (auto simp: posix_copy2_def is_dir_upd_file)
qed

lemma posix_copy2_twice:
  "snd (posix_copy2 s d (snd (posix_copy2 s d fs))) = snd (posix_copy2 s d fs)"
proof -
  have "posix_copy2 s d (snd (posix_copy2 s d fs)) =
          posix_copyfile s (if is_dir fs d then path_join d (path_name s) else d)
            (snd (posix_copy2 s d fs))"
    by (simp add: posix_copy2_def [of s d "snd (posix_copy2 s d fs)"] posix_copy2_is_dir)
  then show ?thesis
    by (simp add: posix_copy2_def [of s d fs] posix_copyfile_twice)
qed

lemma posix_copy2_frame:
  assumes "x \<noteq> s" "x \<noteq> d" "x \<noteq> d @ [path_name s]" "x \<noteq> butlast d"
  shows "posix_copy2 s d (fs(x \<mapsto> v)) =
           (fst (posix_copy2 s d fs), (snd (posix_copy2 s d fs))(x \<mapsto> v))"
proof (cases "is_dir fs d")
  case True
  with assms posix_copyfile_frame [of x s "d @ [path_name s]" fs v] show ?thesis
    by (simp add: posix_copy2_def path_join_def is_dir_upd_other)
next
  case False
  with assms posix_copyfile_frame [of x s d fs v] show ?thesis
    by (simp add: posix_copy2_def is_dir_upd_other)
qed

text \<open>A copy changes no node but that of \<open>d\<close> or of the entry of the source's name in \<open>d\<close>.\<close>

lemma posix_copy2_effect:
  "snd (posix_copy2 s d fs) = fs \<or>
   (\<exists>t v. (t = d \<or> t = d @ [path_name s]) \<and> t \<noteq> s \<and> snd (posix_copy2 s d fs) = fs(t \<mapsto> v))"
proof (cases "is_dir fs d")
  case True
  with posix_copyfile_effect [of s "d @ [path_name s]" fs] show ?thesis
    by (auto simp: posix_copy2_def path_join_def)
next
  case False
  with posix_copyfile_effect [of s d fs] show ?thesis
    by (auto simp: posix_copy2_def)
qed

section \<open>The file system after an iteration, after the loop and after a run\<close>

lemma loop_body_posix_fsys:
  "fsys (snd (loop_body posix fi n w)) = artifact_fs fi (fsys w)"
  by (simp add: loop_body_def try_body_def artifact_fs_def posix_def posix_exists_def
      print_line_def split: prod.splits sum.splits)

lemma artifact_fs_effect:
  "artifact_fs fi fs = fs \<or>
   (\<exists>t v. (t = dest fi \<or> t = dest fi @ [path_name (source fi)]) \<and> t \<noteq> source fi \<and>
      artifact_fs fi fs = fs(t \<mapsto> v))"
  using posix_copy2_effect [of "source fi" "dest fi" fs]
  by (simp add: artifact_fs_def)

lemma artifact_fs_other:
  assumes "p \<noteq> dest fi" "p \<noteq> dest fi @ [path_name (source fi)]"
  shows "artifact_fs fi fs p = fs p"
  using artifact_fs_effect [of fi fs] assms by auto

lemma artifact_fs_frame:
  assumes "x \<noteq> source fi" "x \<noteq> dest fi" "x \<noteq> dest fi @ [path_name (source fi)]"
    "x \<noteq> butlast (dest fi)"
  shows "artifact_fs fi (fs(x \<mapsto> v)) = (artifact_fs fi fs)(x \<mapsto> v)"
  using assms posix_copy2_frame [of x "source fi" "dest fi" fs v]
  by (simp add: artifact_fs_def)

lemma artifact_fs_twice: "artifact_fs fi (artifact_fs fi fs) = artifact_fs fi fs"
proof (cases "fs (source fi) = None")
  case True
  then show ?thesis by (simp add: artifact_fs_def)
next
  case False
  then have eq: "artifact_fs fi fs = snd (posix_copy2 (source fi) (dest fi) fs)"
    by (auto simp: artifact_fs_def)
  from artifact_fs_effect [of fi fs] False
  have "artifact_fs fi fs (source fi) \<noteq> None" by auto
  then have "artifact_fs fi (artifact_fs fi fs) =
      snd (posix_copy2 (source fi) (dest fi) (artifact_fs fi fs))"
    by (auto simp: artifact_fs_def [of fi "artifact_fs fi fs"])
  also have "\<dots> = artifact_fs fi fs"
    unfolding eq by (rule posix_copy2_twice)
  finally show ?thesis .
qed

text \<open>Two iterations that touch different paths can be swapped.\<close>

lemma artifact_fs_commute:
  assumes "\<And>t. t = dest b \<or> t = dest b @ [path_name (source b)] \<Longrightarrow>
              t \<noteq> source a \<and> t \<noteq> dest a \<and> t \<noteq> dest a @ [path_name (source a)] \<and>
              t \<noteq> butlast (dest a)"
    and "\<And>t. t = dest a \<or> t = dest a @ [path_name (source a)] \<Longrightarrow>
              t \<noteq> source b \<and> t \<noteq> dest b \<and> t \<noteq> dest b @ [path_name (source b)] \<and>
              t \<noteq> butlast (dest b)"
  shows "artifact_fs a (artifact_fs b fs) = artifact_fs b (artifact_fs a fs)"
proof -
  consider "artifact_fs a fs = fs" | "artifact_fs b fs = fs"
    | ta va tb vb where "ta = dest a \<or> ta = dest a @ [path_name (source a)]"
        "artifact_fs a fs = fs(ta \<mapsto> va)"
        "tb = dest b \<or> tb = dest b @ [path_name (source b)]"
        "artifact_fs b fs = fs(tb \<mapsto> vb)"
    using artifact_fs_effect [of a fs] artifact_fs_effect [of b fs] by blast
  then show ?thesis
  proof cases
    case 1
    then show ?thesis
      using artifact_fs_effect [of b fs] assms(1) artifact_fs_frame [of _ a fs]
      by (metis (no_types, lifting))
  next
    case 2
    then show ?thesis
      using artifact_fs_effect [of a fs] assms(2) artifact_fs_frame [of _ b fs]
      by (metis (no_types, lifting))
  next
    case 3
    from assms(1) [OF 3(3)] have fa: "artifact_fs a (fs(tb \<mapsto> vb)) = (artifact_fs a fs)(tb \<mapsto> vb)"
      by (intro artifact_fs_frame) simp_all
    from assms(2) [OF 3(1)] have fb: "artifact_fs b (fs(ta \<mapsto> va)) = (artifact_fs b fs)(ta \<mapsto> va)"
      by (intro artifact_fs_frame) simp_all
    from assms(1) [OF 3(3)] 3(1) have "ta \<noteq> tb" by auto
    with fa fb 3(2,4) show ?thesis
      by (simp add: fun_upd_twist)
  qed
qed

lemma print_summary_fsys [simp]: "fsys (print_summary n w) = fsys w"
  by (simp add: print_summary_def print_line_def)

lemma print_line_fsys [simp]: "fsys (print_line l w) = fsys w"
  by (simp add: print_line_def)

lemma for_loop_posix_fsys:
  "fsys (snd (for_loop posix fis n w)) = foldl (\<lambda>fs fi. artifact_fs fi fs) (fsys w) fis"
proof (induction fis arbitrary: n w)
  case Nil
  show ?case by simp
next
  case (Cons fi rest)
  obtain c w1 where step: "loop_body posix fi n w = (Inr c, w1)"
    using loop_body_returns by blast
  with loop_body_posix_fsys [of fi n w] have "fsys w1 = artifact_fs fi (fsys w)"
    by simp
  with step Cons.IH [of c w1] show ?case by simp
qed

lemma copy_firmware_files_posix_fsys:
  "fsys (snd (copy_firmware_files posix sf w)) =
     (case posix_mkdir (path_join (path_parent (path_parent sf)) ''firmware'') (fsys w) of
        (Inl e, fs1) \<Rightarrow> fs1
      | (Inr u, fs1) \<Rightarrow>
          foldl (\<lambda>fs fi. artifact_fs fi fs) fs1
            (files_to_copy
               (path_join (path_join (path_join (path_parent (path_parent sf)) ''.pio'') ''build'')
                  ''esp32doit-devkit-v1'')
               (path_join (path_parent (path_parent sf)) ''firmware'')))"
proof -
  have mk: "path_mkdir posix = posix_mkdir"
    by (simp add: posix_def)
  from copy_firmware_files_cases [of posix sf w] show ?thesis
  proof (elim disjE exE conjE)
    fix e s
    assume "path_mkdir posix (path_join (path_parent (path_parent sf)) ''firmware'')
              (fsys (print_line Banner (print_line Rule w))) = (Inl e, s)"
      and "copy_firmware_files posix sf w =
             (Inl e, (print_line Banner (print_line Rule w))\<lparr>fsys := s\<rparr>)"
    then show ?thesis by (simp add: mk)
  next
    fix u s c w2
    assume "path_mkdir posix (path_join (path_parent (path_parent sf)) ''firmware'')
              (fsys (print_line Banner (print_line Rule w))) = (Inr u, s)"
      and loop: "for_loop posix
        (files_to_copy
          (path_join (path_join (path_join (path_parent (path_parent sf)) ''.pio'') ''build'')
             ''esp32doit-devkit-v1'')
          (path_join (path_parent (path_parent sf)) ''firmware''))
        0 ((print_line Banner (print_line Rule w))\<lparr>fsys := s\<rparr>) = (Inr c, w2)"
      and "copy_firmware_files posix sf w = (Inr c, print_summary c w2)"
    moreover from arg_cong [OF loop, of "\<lambda>r. fsys (snd r)"]
    have "fsys w2 = foldl (\<lambda>fs fi. artifact_fs fi fs) s
        (files_to_copy
          (path_join (path_join (path_join (path_parent (path_parent sf)) ''.pio'') ''build'')
             ''esp32doit-devkit-v1'')
          (path_join (path_parent (path_parent sf)) ''firmware''))"
      by (simp add: for_loop_posix_fsys)
    ultimately show ?thesis by (simp add: mk)
  qed
qed

lemma posix_mkdir_raised: "posix_mkdir p fs = (Inl e, fs1) \<Longrightarrow> fs1 = fs"
  by (auto simp: posix_mkdir_def split: option.splits node.splits if_splits)

lemma posix_mkdir_done:
  assumes "posix_mkdir p fs = (Inr u, fs1)"
  shows "is_dir fs1 p \<and> is_dir fs1 (path_parent p) \<and>
         (fs1 = fs \<or> fs p = None \<and> fs1 = fs(p \<mapsto> Dir True))"
  using assms
  by (auto simp: posix_mkdir_def is_dir_def split: option.splits node.splits if_splits)

lemma posix_mkdir_existing:
  "is_dir fs p \<Longrightarrow> is_dir fs (path_parent p) \<Longrightarrow> posix_mkdir p fs = (Inr (), fs)"
  by (auto simp: posix_mkdir_def is_dir_def split: option.splits node.splits)

text \<open>The file system after the loop over the two configured artifacts.\<close>

lemma two_artifacts_other:
  assumes "length p \<le> Suc (length pd)"
  shows "foldl (\<lambda>fs fi. artifact_fs fi fs) fs
           (files_to_copy (pd @ [''.pio'', ''build'', x]) (pd @ [''firmware''])) p = fs p"
proof -
  have "\<And>ys. length ys \<ge> 2 \<Longrightarrow> p \<noteq> pd @ ys"
    using assms by auto
  then show ?thesis
    by (simp add: files_to_copy_def path_join_def artifact_fs_other)
qed

lemma two_artifacts_twice:
  fixes pd :: path and x :: string
  defines "fis \<equiv> files_to_copy (pd @ [''.pio'', ''build'', x]) (pd @ [''firmware''])"
  shows "foldl (\<lambda>fs fi. artifact_fs fi fs) (foldl (\<lambda>fs fi. artifact_fs fi fs) fs fis) fis =
         foldl (\<lambda>fs fi. artifact_fs fi fs) fs fis"
proof -
  define fw where "fw = \<lparr>source = pd @ [''.pio'', ''build'', x, ''firmware.bin''],
    dest = pd @ [''firmware'', ''firmware.bin''], name = ''Main firmware''\<rparr>"
  define sp where "sp = \<lparr>source = pd @ [''.pio'', ''build'', x, ''spiffs.bin''],
    dest = pd @ [''firmware'', ''spiffs.bin''], name = ''SPIFFS filesystem''\<rparr>"
  have fis: "fis = [fw, sp]"
    by (simp add: fis_def files_to_copy_def path_join_def fw_def sp_def)
  have swap: "\<And>fs. artifact_fs fw (artifact_fs sp fs) = artifact_fs sp (artifact_fs fw fs)"
    by (rule artifact_fs_commute) (auto simp: fw_def sp_def path_name_def butlast_append)
  have "artifact_fs sp (artifact_fs fw (artifact_fs sp (artifact_fs fw fs))) =
        artifact_fs sp (artifact_fs sp (artifact_fs fw (artifact_fs fw fs)))"
    by (simp only: swap)
  also have "\<dots> = artifact_fs sp (artifact_fs fw fs)"
    by (simp only: artifact_fs_twice)
  finally show ?thesis
    by (simp add: fis)
qed

section \<open>What a run over the file system prints and leaves\<close>

lemma copy_firmware_files_returns_iff:
  "(\<exists>c. fst (copy_firmware_files lib sf w) = Inr c) \<longleftrightarrow>
   (\<exists>u. fst (path_mkdir lib (path_join (path_parent (path_parent sf)) ''firmware'') (fsys w)) = Inr u)"
  using copy_firmware_files_cases [of lib sf w]
  by (auto simp: print_line_def)

lemma try_body_posix_no_exists_error:
  "try_body posix fi n w = (Inl e, w1) \<Longrightarrow> e \<noteq> FileExistsError"
  by (auto simp: try_body_def posix_def posix_exists_def posix_copy2_def posix_copyfile_def
      posix_stat_size_def split: if_splits prod.splits sum.splits option.splits node.splits)

lemma loop_body_posix_no_exists_error:
  assumes "Error_copying l FileExistsError \<in> set (stdout (snd (loop_body posix fi n w)))"
  shows "Error_copying l FileExistsError \<in> set (stdout w)"
proof (cases "try_body posix fi n w")
  case (Pair r w1)
  show ?thesis
  proof (cases r)
    case (Inl e)
    with Pair posix_try_body_unchanged_on_error [of fi n w e w1]
      try_body_posix_no_exists_error [of fi n w e w1] assms
    show ?thesis by (auto simp: loop_body_def print_line_def)
  next
    case (Inr c)
    with Pair assms show ?thesis
      by (auto simp: loop_body_def try_body_def print_line_def
          split: if_splits prod.splits sum.splits)
  qed
qed

lemma for_loop_posix_no_exists_error:
  "Error_copying l FileExistsError \<in> set (stdout (snd (for_loop posix fis n w))) \<Longrightarrow>
   Error_copying l FileExistsError \<in> set (stdout w)"
proof (induction fis arbitrary: n w)
  case Nil
  then show ?case by simp
next
  case (Cons fi rest)
  obtain c w1 where step: "loop_body posix fi n w = (Inr c, w1)"
    using loop_body_returns by blast
  with Cons.prems have "Error_copying l FileExistsError \<in> set (stdout (snd (for_loop posix rest c w1)))"
    by simp
  from Cons.IH [OF this] step loop_body_posix_no_exists_error [of l fi n w]
  show ?case by simp
qed

lemma copy_firmware_files_posix_no_exists_error:
  assumes "Error_copying l FileExistsError \<in> set (stdout (snd (copy_firmware_files posix sf w)))"
  shows "Error_copying l FileExistsError \<in> set (stdout w)"
  using copy_firmware_files_cases [of posix sf w]
proof (elim disjE exE conjE)
  fix e s
  assume "copy_firmware_files posix sf w =
            (Inl e, (print_line Banner (print_line Rule w))\<lparr>fsys := s\<rparr>)"
  with assms show ?thesis by (simp add: print_line_def)
next
  fix u s c w2
  assume loop: "for_loop posix
      (files_to_copy
        (path_join (path_join (path_join (path_parent (path_parent sf)) ''.pio'') ''build'')
           ''esp32doit-devkit-v1'')
        (path_join (path_parent (path_parent sf)) ''firmware''))
      0 ((print_line Banner (print_line Rule w))\<lparr>fsys := s\<rparr>) = (Inr c, w2)"
    and "copy_firmware_files posix sf w = (Inr c, print_summary c w2)"
  with assms have "Error_copying l FileExistsError \<in> set (stdout w2)"
    by (auto simp: print_summary_def print_line_def split: if_splits)
  with loop have "Error_copying l FileExistsError \<in> set (stdout (snd (for_loop posix
      (files_to_copy
        (path_join (path_join (path_join (path_parent (path_parent sf)) ''.pio'') ''build'')
           ''esp32doit-devkit-v1'')
        (path_join (path_parent (path_parent sf)) ''firmware''))
      0 ((print_line Banner (print_line Rule w))\<lparr>fsys := s\<rparr>))))"
    by simp
  then have "Error_copying l FileExistsError \<in>
      set (stdout ((print_line Banner (print_line Rule w))\<lparr>fsys := s\<rparr>))"
    by (rule for_loop_posix_no_exists_error)
  then show ?thesis by (simp add: print_line_def)
qed

lemma build_dir_path:
  "path_join (path_join (path_join pd ''.pio'') ''build'') x = pd @ [''.pio'', ''build'', x]"
  by (simp add: path_join_def)

lemma firmware_dir_path: "path_join pd ''firmware'' = pd @ [''firmware'']"
  by (simp add: path_join_def)

lemma copy_firmware_files_posix_fsys_paths:
  "fsys (snd (copy_firmware_files posix sf w)) =
     (case posix_mkdir (butlast (butlast sf) @ [''firmware'']) (fsys w) of
        (Inl e, fs1) \<Rightarrow> fs1
      | (Inr u, fs1) \<Rightarrow>
          foldl (\<lambda>fs fi. artifact_fs fi fs) fs1
            (files_to_copy (butlast (butlast sf) @ [''.pio'', ''build'', ''esp32doit-devkit-v1''])
               (butlast (butlast sf) @ [''firmware''])))"
  using copy_firmware_files_posix_fsys [of sf w]
  unfolding build_dir_path firmware_dir_path path_parent_def .

section \<open>An iteration by the outcome of its calls\<close>

lemma loop_body_when_missing:
  assumes "path_exists lib (source fi) (fsys w) = Inr False"
  shows "loop_body lib fi n w =
           (Inr n, print_line (Not_found (name fi) (path_name (source fi))) w)"
  using assms by (simp add: loop_body_def try_body_def)

lemma loop_body_when_copied:
  assumes "path_exists lib (source fi) (fsys w) = Inr True"
    and "shutil_copy2 lib (source fi) (dest fi) (fsys w) = (Inr u, s)"
    and "path_stat_size lib (dest fi) s = Inr sz"
  shows "loop_body lib fi n w =
           (Inr (n + 1),
            print_line (Copied (name fi) (path_name (source fi)) sz) (w\<lparr>fsys := s\<rparr>))"
  using assms by (simp add: loop_body_def try_body_def)

text \<open>
  An iteration whose existence check does not return true, because it returns false or
  raises, calls neither \<^verbatim>\<open>copy2\<close> nor \<^verbatim>\<open>stat\<close>.
\<close>

lemma loop_body_without_copy:
  assumes "path_exists lib (source fi) (fsys w) \<noteq> Inr True"
  shows "\<exists>l. \<not> is_copied l \<and> loop_body lib fi n w = (Inr n, print_line l w)"
proof (cases "path_exists lib (source fi) (fsys w)")
  case (Inl e)
  then have "loop_body lib fi n w = (Inr n, print_line (Error_copying (name fi) e) w)"
    by (simp add: loop_body_def try_body_def)
  then show ?thesis by (intro exI [of _ "Error_copying (name fi) e"]) simp
next
  case (Inr found)
  with assms have "path_exists lib (source fi) (fsys w) = Inr False"
    by (cases found) simp_all
  from loop_body_when_missing [OF this] show ?thesis
    by (intro exI [of _ "Not_found (name fi) (path_name (source fi))"]) simp
qed

text \<open>The standalone run when the directory creation succeeded.\<close>

lemma copy_firmware_files_after_mkdir:
  assumes "path_mkdir lib (path_join (path_parent (path_parent sf)) ''firmware'') (fsys w) =
             (Inr u, s)"
    and "for_loop lib
           (files_to_copy
              (path_join (path_join (path_join (path_parent (path_parent sf)) ''.pio'') ''build'')
                 ''esp32doit-devkit-v1'')
              (path_join (path_parent (path_parent sf)) ''firmware''))
           0 ((print_line Banner (print_line Rule w))\<lparr>fsys := s\<rparr>) = (Inr c, w2)"
  shows "copy_firmware_files lib sf w = (Inr c, print_summary c w2)"
  using assms by (simp add: copy_firmware_files_def Let_def print_line_def)

text \<open>The standalone run, put together from the directory creation and the two iterations.\<close>

lemma copy_firmware_files_run:
  fixes sf :: path
  defines "pd \<equiv> path_parent (path_parent sf)"
  defines "bd \<equiv> path_join (path_join (path_join pd ''.pio'') ''build'') ''esp32doit-devkit-v1''"
  defines "fd \<equiv> path_join pd ''firmware''"
  assumes mk: "path_mkdir lib fd (fsys w) = (Inr u, s)"
    and one: "loop_body lib
        \<lparr>source = path_join bd ''firmware.bin'', dest = path_join fd ''firmware.bin'',
           name = ''Main firmware''\<rparr>
        0 ((print_line Banner (print_line Rule w))\<lparr>fsys := s\<rparr>) = (Inr a, wb)"
    and two: "loop_body lib
        \<lparr>source = path_join bd ''spiffs.bin'', dest = path_join fd ''spiffs.bin'',
           name = ''SPIFFS filesystem''\<rparr>
        a wb = (Inr b, wc)"
  shows "copy_firmware_files lib sf w = (Inr b, print_summary b wc)"
proof (rule copy_firmware_files_after_mkdir)
  show "path_mkdir lib (path_join (path_parent (path_parent sf)) ''firmware'') (fsys w) =
          (Inr u, s)"
    using mk by (simp add: fd_def pd_def)
  show "for_loop lib
         (files_to_copy
            (path_join (path_join (path_join (path_parent (path_parent sf)) ''.pio'') ''build'')
               ''esp32doit-devkit-v1'')
            (path_join (path_parent (path_parent sf)) ''firmware''))
         0 ((print_line Banner (print_line Rule w))\<lparr>fsys := s\<rparr>) = (Inr b, wc)"
    using one two by (simp add: files_to_copy_def bd_def fd_def pd_def)
qed

text \<open>The same for the post-build script, which returns \<^verbatim>\<open>None\<close>.\<close>

lemma pb_copy_firmware_files_run:
  fixes env :: pio_env
  defines "pd \<equiv> PROJECT_DIR env"
  defines "bd \<equiv> path_join (path_join (path_join pd ''.pio'') ''build'') (PIOENV env)"
  defines "fd \<equiv> path_join pd ''firmware''"
  assumes mk: "path_mkdir lib fd (fsys w) = (Inr u, s)"
    and one: "loop_body lib
        \<lparr>source = path_join bd ''firmware.bin'', dest = path_join fd ''firmware.bin'',
           name = ''Main firmware''\<rparr>
        0 ((print_line Banner (print_line Rule w))\<lparr>fsys := s\<rparr>) = (Inr a, wb)"
    and two: "loop_body lib
        \<lparr>source = path_join bd ''spiffs.bin'', dest = path_join fd ''spiffs.bin'',
           name = ''SPIFFS filesystem''\<rparr>
        a wb = (Inr b, wc)"
  shows "pb_copy_firmware_files lib env w = (Inr None, print_summary b wc)"
  using mk one two
  by (simp add: pb_copy_firmware_files_def Let_def pb_for_loop_eq pb_files_to_copy_eq
      pb_print_summary_eq files_to_copy_def print_line_def bd_def fd_def pd_def)

text \<open>
  What a copy that returned leaves in the file-system model: at a destination that is
  not a directory, the node of the source; elsewhere, what was there.
\<close>

lemma posix_copy2_returned:
  assumes "posix_copy2 src dst fs = (Inr u, fs')" and "\<not> is_dir fs dst"
  shows "fs' dst = fs src \<and> (\<exists>c m. fs src = Some (File c True m)) \<and>
         posix_stat_size dst fs' = posix_stat_size src fs \<and>
         (\<forall>p. p \<noteq> dst \<longrightarrow> fs' p = fs p)"
  using assms
  by (auto simp: posix_copy2_def posix_copyfile_def posix_stat_size_def
      split: if_splits option.splits node.splits)

lemma posix_mkdir_frame:
  "(\<forall>p. p \<noteq> d \<longrightarrow> snd (posix_mkdir d fs) p = fs p) \<and>
   (snd (posix_mkdir d fs) d = fs d \<or>
    fs d = None \<and> snd (posix_mkdir d fs) d = Some (Dir True))"
  by (auto simp: posix_mkdir_def split: option.splits node.splits)

section \<open>When the directory creation raises\<close>

lemma posix_mkdir_no_parent:
  assumes "\<not> is_dir fs (path_parent p)"
  shows "\<exists>e. (e = FileNotFoundError \<or> e = NotADirectoryError) \<and> posix_mkdir p fs = (Inl e, fs)"
  using assms by (auto simp: posix_mkdir_def is_dir_def split: option.splits node.splits)

lemma copy_firmware_files_raised:
  assumes "path_mkdir lib (path_join (path_parent (path_parent sf)) ''firmware'') (fsys w) =
             (Inl e, s)"
  shows "copy_firmware_files lib sf w = (Inl e, (print_line Banner (print_line Rule w))\<lparr>fsys := s\<rparr>)"
  using assms by (simp add: copy_firmware_files_def Let_def print_line_def)

lemma pb_copy_firmware_files_raised:
  assumes "path_mkdir lib (path_join (PROJECT_DIR env) ''firmware'') (fsys w) = (Inl e, s)"
  shows "pb_copy_firmware_files lib env w =
           (Inl e, (print_line Banner (print_line Rule w))\<lparr>fsys := s\<rparr>)"
  using assms by (simp add: pb_copy_firmware_files_def Let_def print_line_def)

lemma pb_copy_firmware_files_result:
  "fst (pb_copy_firmware_files lib env w) =
     (case fst (path_mkdir lib (path_join (PROJECT_DIR env) ''firmware'') (fsys w)) of
        Inl e \<Rightarrow> Inl e
      | Inr u \<Rightarrow> Inr None)"
proof -
  obtain c w2 where "for_loop lib
      (files_to_copy
         (path_join (path_join (path_join (PROJECT_DIR env) ''.pio'') ''build'') (PIOENV env))
         (path_join (PROJECT_DIR env) ''firmware''))
      0 ((print_line Banner (print_line Rule w))
           \<lparr>fsys := snd (path_mkdir lib (path_join (PROJECT_DIR env) ''firmware'') (fsys w))\<rparr>)
      = (Inr c, w2)"
    using for_loop_returns by blast
  then show ?thesis
    by (auto simp: pb_copy_firmware_files_def Let_def pb_for_loop_eq pb_files_to_copy_eq
        print_line_def split: prod.splits sum.splits)
qed

lemma copy_firmware_files_raises_iff:
  "fst (copy_firmware_files lib sf w) = Inl e \<longleftrightarrow>
   fst (path_mkdir lib (path_join (path_parent (path_parent sf)) ''firmware'') (fsys w)) = Inl e"
  using copy_firmware_files_cases [of lib sf w]
  by (auto simp: print_line_def)

lemma pb_copy_firmware_files_raises_iff:
  "fst (pb_copy_firmware_files lib env w) = Inl e \<longleftrightarrow>
   fst (path_mkdir lib (path_join (PROJECT_DIR env) ''firmware'') (fsys w)) = Inl e"
  by (simp add: pb_copy_firmware_files_result split: sum.splits)

section \<open>What a second copy reports\<close>

lemma loop_body_posix_report:
  "loop_body posix fi n w =
     (Inr (n + snd (artifact_report fi (fsys w))),
      print_line (fst (artifact_report fi (fsys w))) (w\<lparr>fsys := artifact_fs fi (fsys w)\<rparr>))"
  by (simp add: loop_body_def try_body_def artifact_report_def artifact_fs_def posix_def
      posix_exists_def print_line_def split: prod.splits sum.splits)

text \<open>
  A copy hands on the permission bits of its source. Repeated, it ends as it did the
  first time when the source is not a write-protected file.
\<close>

lemma posix_copyfile_repeat:
  assumes "\<forall>c r. fs s \<noteq> Some (File c r False)" and "s \<noteq> t"
  shows "fst (posix_copyfile s t (snd (posix_copyfile s t fs))) = fst (posix_copyfile s t fs)"
  using assms
  by (auto simp: posix_copyfile_def split: option.splits node.splits)

lemma posix_copy2_repeat:
  assumes "\<forall>c r. fs s \<noteq> Some (File c r False)" and "s \<noteq> d" and "s \<noteq> d @ [path_name s]"
  shows "fst (posix_copy2 s d (snd (posix_copy2 s d fs))) = fst (posix_copy2 s d fs)"
proof -
  have "posix_copy2 s d (snd (posix_copy2 s d fs)) =
          posix_copyfile s (if is_dir fs d then path_join d (path_name s) else d)
            (snd (posix_copy2 s d fs))"
    by (simp add: posix_copy2_def [of s d "snd (posix_copy2 s d fs)"] posix_copy2_is_dir)
  with assms show ?thesis
    by (simp add: posix_copy2_def [of s d fs] posix_copyfile_repeat path_join_def)
qed

lemma artifact_report_frame:
  assumes "x \<noteq> source fi" "x \<noteq> dest fi" "x \<noteq> dest fi @ [path_name (source fi)]"
    "x \<noteq> butlast (dest fi)"
  shows "artifact_report fi (fs(x \<mapsto> v)) = artifact_report fi fs"
proof (cases "posix_copy2 (source fi) (dest fi) fs")
  case (Pair r fs')
  with posix_copy2_frame [OF assms, of fs v]
  have "posix_copy2 (source fi) (dest fi) (fs(x \<mapsto> v)) = (r, fs'(x \<mapsto> v))"
    by simp
  moreover from assms(2) have "posix_stat_size (dest fi) (fs'(x \<mapsto> v)) =
      posix_stat_size (dest fi) fs'"
    by (simp add: posix_stat_size_def)
  ultimately show ?thesis
    using Pair assms(1) by (cases r) (simp_all add: artifact_report_def)
qed

lemma artifact_report_repeat:
  assumes "\<forall>c r. fs (source fi) \<noteq> Some (File c r False)"
    and "source fi \<noteq> dest fi" and "source fi \<noteq> dest fi @ [path_name (source fi)]"
  shows "artifact_report fi (artifact_fs fi fs) = artifact_report fi fs"
proof (cases "fs (source fi) = None")
  case True
  then show ?thesis by (simp add: artifact_fs_def)
next
  case False
  obtain r fs' where first: "posix_copy2 (source fi) (dest fi) fs = (r, fs')"
    by (cases "posix_copy2 (source fi) (dest fi) fs")
  with False have eq: "artifact_fs fi fs = fs'"
    by (auto simp: artifact_fs_def)
  from artifact_fs_other [of "source fi" fi fs] assms(2,3) False eq
  have there: "fs' (source fi) \<noteq> None"
    by simp
  from posix_copy2_repeat [of fs "source fi" "dest fi", OF assms]
    posix_copy2_twice [of "source fi" "dest fi" fs] first
  have second: "posix_copy2 (source fi) (dest fi) fs' = (r, fs')"
    by (simp add: prod_eq_iff)
  from False there first second have "artifact_report fi fs' = artifact_report fi fs"
    by (auto simp: artifact_report_def)
  with eq show ?thesis by simp
qed

text \<open>
  The second copy of one artifact after both were copied: the copy of the other one is
  at none of the paths it reads.
\<close>

lemma two_artifacts_report:
  fixes pd :: path and x :: string
  defines "fw \<equiv> \<lparr>source = pd @ [''.pio'', ''build'', x, ''firmware.bin''],
    dest = pd @ [''firmware'', ''firmware.bin''], name = ''Main firmware''\<rparr>"
  defines "sp \<equiv> \<lparr>source = pd @ [''.pio'', ''build'', x, ''spiffs.bin''],
    dest = pd @ [''firmware'', ''spiffs.bin''], name = ''SPIFFS filesystem''\<rparr>"
  assumes "\<forall>c r. fs (source fw) \<noteq> Some (File c r False)"
    and "\<forall>c r. fs (source sp) \<noteq> Some (File c r False)"
  shows "artifact_report fw (artifact_fs sp (artifact_fs fw fs)) = artifact_report fw fs"
    and "artifact_fs fw (artifact_fs sp (artifact_fs fw fs)) = artifact_fs sp (artifact_fs fw fs)"
    and "artifact_report sp (artifact_fs sp (artifact_fs fw fs)) =
           artifact_report sp (artifact_fs fw fs)"
proof -
  let ?A = "artifact_fs fw fs"
  have once: "artifact_report fw ?A = artifact_report fw fs"
    using assms(3) by (intro artifact_report_repeat) (simp_all add: fw_def)
  from artifact_fs_effect [of sp ?A]
  have first: "artifact_report fw (artifact_fs sp ?A) = artifact_report fw fs"
  proof (elim disjE)
    assume "artifact_fs sp ?A = ?A"
    with once show ?thesis by simp
  next
    assume "\<exists>t v. (t = dest sp \<or> t = dest sp @ [path_name (source sp)]) \<and>
      t \<noteq> source sp \<and> artifact_fs sp ?A = ?A(t \<mapsto> v)"
    then obtain t v where t: "t = dest sp \<or> t = dest sp @ [path_name (source sp)]"
      and "artifact_fs sp ?A = ?A(t \<mapsto> v)"
      by blast
    moreover from t have "artifact_report fw (?A(t \<mapsto> v)) = artifact_report fw ?A"
      by (intro artifact_report_frame)
        (auto simp: fw_def sp_def path_name_def butlast_append)
    ultimately show ?thesis using once by simp
  qed
  have swap: "\<And>fs. artifact_fs fw (artifact_fs sp fs) = artifact_fs sp (artifact_fs fw fs)"
    by (rule artifact_fs_commute) (auto simp: fw_def sp_def path_name_def butlast_append)
  have second: "artifact_fs fw (artifact_fs sp ?A) = artifact_fs sp ?A"
    by (simp only: swap artifact_fs_twice)
  have "?A (source sp) = fs (source sp)"
    by (intro artifact_fs_other) (simp_all add: fw_def sp_def path_name_def)
  with assms(4) have "\<forall>c r. ?A (source sp) \<noteq> Some (File c r False)"
    by simp
  then have third: "artifact_report sp (artifact_fs sp ?A) = artifact_report sp ?A"
    by (intro artifact_report_repeat) (simp_all add: sp_def)
  from first show "artifact_report fw (artifact_fs sp (artifact_fs fw fs)) =
      artifact_report fw fs" .
  from second show "artifact_fs fw (artifact_fs sp (artifact_fs fw fs)) =
      artifact_fs sp (artifact_fs fw fs)" .
  from third show "artifact_report sp (artifact_fs sp (artifact_fs fw fs)) =
      artifact_report sp (artifact_fs fw fs)" .
qed

text \<open>The run over \<open>posix\<close> when the directory creation returned.\<close>

lemma copy_firmware_files_posix_returned:
  fixes sf :: path and w :: "filesystem world"
  defines "pd \<equiv> path_parent (path_parent sf)"
  defines "bd \<equiv> path_join (path_join (path_join pd ''.pio'') ''build'') ''esp32doit-devkit-v1''"
  defines "fd \<equiv> path_join pd ''firmware''"
  defines "fw \<equiv> \<lparr>source = path_join bd ''firmware.bin'', dest = path_join fd ''firmware.bin'',
    name = ''Main firmware''\<rparr>"
  defines "sp \<equiv> \<lparr>source = path_join bd ''spiffs.bin'', dest = path_join fd ''spiffs.bin'',
    name = ''SPIFFS filesystem''\<rparr>"
  assumes mk: "posix_mkdir fd (fsys w) = (Inr u, s)"
  shows "copy_firmware_files posix sf w =
     (Inr (snd (artifact_report fw s) + snd (artifact_report sp (artifact_fs fw s))),
      print_summary (snd (artifact_report fw s) + snd (artifact_report sp (artifact_fs fw s)))
        \<lparr>fsys = artifact_fs sp (artifact_fs fw s),
           stdout = stdout w @ [Rule, Banner, fst (artifact_report fw s),
             fst (artifact_report sp (artifact_fs fw s))]\<rparr>)"
proof -
  let ?w0 = "(print_line Banner (print_line Rule w))\<lparr>fsys := s\<rparr>"
  let ?wb = "print_line (fst (artifact_report fw s)) (?w0\<lparr>fsys := artifact_fs fw s\<rparr>)"
  let ?wc = "print_line (fst (artifact_report sp (artifact_fs fw s)))
    (?wb\<lparr>fsys := artifact_fs sp (artifact_fs fw s)\<rparr>)"
  from mk have mk': "path_mkdir posix fd (fsys w) = (Inr u, s)"
    by (simp add: posix_def)
  have one: "loop_body posix fw 0 ?w0 = (Inr (snd (artifact_report fw s)), ?wb)"
    using loop_body_posix_report [of fw 0 ?w0] by simp
  have two: "loop_body posix sp (snd (artifact_report fw s)) ?wb =
      (Inr (snd (artifact_report fw s) + snd (artifact_report sp (artifact_fs fw s))), ?wc)"
    using loop_body_posix_report [of sp "snd (artifact_report fw s)" ?wb] by simp
  have "copy_firmware_files posix sf w =
      (Inr (snd (artifact_report fw s) + snd (artifact_report sp (artifact_fs fw s))),
       print_summary (snd (artifact_report fw s) + snd (artifact_report sp (artifact_fs fw s)))
         ?wc)"
    using mk' one two
    unfolding fw_def sp_def bd_def fd_def pd_def
    by (rule copy_firmware_files_run)
  moreover have "?wc = \<lparr>fsys = artifact_fs sp (artifact_fs fw s),
      stdout = stdout w @ [Rule, Banner, fst (artifact_report fw s),
        fst (artifact_report sp (artifact_fs fw s))]\<rparr>"
    by (simp add: print_line_def)
  ultimately show ?thesis by simp
qed
section \<open>The claims\<close>

text \<open>
  Claim C9. The success count starts at 0 and each iteration of the loop leaves it as it is
  or adds 1 to it, in both scripts: an iteration entered with the count \<open>n\<close> ends with
  a count between \<open>n\<close> and \<open>n + 1\<close>, so the count never decreases. The loop over
  the two configured artifacts, entered with 0, ends with a count between 0 and 2, and
  so does every count the standalone function returns.
\<close>

theorem success_count_bounds:
  "(\<exists>c w'. loop_body lib fi n w = (Inr c, w') \<and> n \<le> c \<and> c \<le> n + 1) \<and>
   (\<exists>c w'. pb_loop_body lib fi n w = (Inr c, w') \<and> n \<le> c \<and> c \<le> n + 1) \<and>
   (\<exists>c w'. for_loop lib (files_to_copy bd fd) 0 w = (Inr c, w') \<and> 0 \<le> c \<and> c \<le> 2) \<and>
   (\<exists>c w'. pb_for_loop lib (pb_files_to_copy bd fd) 0 w = (Inr c, w') \<and> 0 \<le> c \<and> c \<le> 2) \<and>
   (case fst (copy_firmware_files lib sf w) of Inl e \<Rightarrow> True | Inr c \<Rightarrow> 0 \<le> c \<and> c \<le> 2)"
proof -
  obtain c1 w1 where body: "loop_body lib fi n w = (Inr c1, w1)"
    using loop_body_returns by blast
  from loop_body_count [OF body] body
  have one: "\<exists>c w'. loop_body lib fi n w = (Inr c, w') \<and> n \<le> c \<and> c \<le> n + 1"
    by simp
  obtain c2 w2 where loop: "for_loop lib (files_to_copy bd fd) 0 w = (Inr c2, w2)"
    using for_loop_returns by blast
  from for_loop_count [OF loop] loop
  have two: "\<exists>c w'. for_loop lib (files_to_copy bd fd) 0 w = (Inr c, w') \<and> 0 \<le> c \<and> c \<le> 2"
    by (simp add: files_to_copy_def)
  have run: "case fst (copy_firmware_files lib sf w) of Inl e \<Rightarrow> True | Inr c \<Rightarrow> 0 \<le> c \<and> c \<le> 2"
  proof (cases "copy_firmware_files lib sf w")
    case (Pair r w')
    then show ?thesis
      using copy_firmware_files_count [of lib sf w _ w'] by (cases r) simp_all
  qed
  from one two run show ?thesis
    by (simp add: pb_loop_body_eq pb_for_loop_eq pb_files_to_copy_eq)
qed

theorem success_count_bounds_witness:
  "fst (copy_firmware_files posix ex_script (start fs_firmware_only)) = Inr 1 \<and>
   (case fst (copy_firmware_files posix ex_script (start fs_firmware_only)) of
      Inl e \<Rightarrow> True | Inr c \<Rightarrow> 0 \<le> c \<and> c \<le> 2)"
  using success_count_bounds [where lib = posix and sf = ex_script and w = "start fs_firmware_only"]
  by (simp add: run_defs posix_defs example_defs)

text \<open>
  Claim C10. The standalone script and the post-build script configure the same two
  artifacts in the same order, and their loops agree on every library, file system,
  artifact and count: the same result of each iteration, so the same report line, the
  same file system and the same count after the loop. When the post-build script is given
  the project directory and the build environment of the standalone script, the two
  runs end in the same file system with the same lines printed.
\<close>

theorem loops_equivalent:
  "pb_files_to_copy bd fd = files_to_copy bd fd \<and>
   pb_loop_body lib fi n w = loop_body lib fi n w \<and>
   pb_for_loop lib (pb_files_to_copy bd fd) n w = for_loop lib (files_to_copy bd fd) n w \<and>
   (PROJECT_DIR env = path_parent (path_parent sf) \<and> PIOENV env = ''esp32doit-devkit-v1'' \<longrightarrow>
      snd (pb_copy_firmware_files lib env w) = snd (copy_firmware_files lib sf w))"
  by (simp add: pb_files_to_copy_eq pb_loop_body_eq pb_for_loop_eq pb_print_summary_eq
      pb_copy_firmware_files_def copy_firmware_files_def Let_def split: prod.splits sum.splits)

theorem loops_equivalent_witness:
  "PROJECT_DIR ex_env = path_parent (path_parent ex_script) \<and>
   PIOENV ex_env = ''esp32doit-devkit-v1'' \<and>
   snd (pb_copy_firmware_files posix ex_env (start fs_unreadable)) =
     snd (copy_firmware_files posix ex_script (start fs_unreadable)) \<and>
   stdout (snd (pb_copy_firmware_files posix ex_env (start fs_unreadable))) =
     [Rule, Banner, Error_copying ''Main firmware'' PermissionError,
      Copied ''SPIFFS filesystem'' ''spiffs.bin'' 2, Summary 1, Ready, Rule]"
  using loops_equivalent [where env = ex_env and sf = ex_script and lib = posix
      and w = "start fs_unreadable"]
  by (simp add: run_defs posix_defs example_defs fs_unreadable_def)

text \<open>
  Claim C2. The exit status of the standalone script is 0 exactly when the function
  returned a count of at least 1, which is exactly when the run printed a copied line;
  it is 1 when the count is 0, and whenever it is not 0.
\<close>

theorem exit_status_iff_copied:
  "(fst (script_main lib sf w) = 0 \<longleftrightarrow>
      (\<exists>c. fst (copy_firmware_files lib sf w) = Inr c \<and> 1 \<le> c)) \<and>
   (fst (script_main lib sf w) = 0 \<longleftrightarrow>
      copied_lines (stdout w) < copied_lines (stdout (snd (script_main lib sf w)))) \<and>
   (fst (copy_firmware_files lib sf w) = Inr 0 \<longrightarrow> fst (script_main lib sf w) = 1) \<and>
   (fst (script_main lib sf w) \<noteq> 0 \<longrightarrow> fst (script_main lib sf w) = 1)"
proof (cases "copy_firmware_files lib sf w")
  case (Pair r w')
  from copy_firmware_files_copied [OF Pair] Pair show ?thesis
    by (cases r) (auto simp: script_main_def)
qed

theorem exit_status_iff_copied_witness:
  "fst (copy_firmware_files posix ex_script (start fs_built)) = Inr 0 \<and>
   fst (script_main posix ex_script (start fs_built)) = 1 \<and>
   fst (script_main posix ex_script (start fs_firmware_only)) = 0 \<and>
   copied_lines (stdout (start fs_firmware_only))
     < copied_lines (stdout (snd (script_main posix ex_script (start fs_firmware_only))))"
  using exit_status_iff_copied [where lib = posix and sf = ex_script and w = "start fs_built"]
    exit_status_iff_copied [where lib = posix and sf = ex_script and w = "start fs_firmware_only"]
  by (simp add: run_defs posix_defs example_defs)

text \<open>
  Claim C3. Whatever the library calls do, the loop of either script ends without an
  exception. When a call inside the \<^verbatim>\<open>try\<close> raises for an artifact, the iteration
  prints the error for that artifact, leaves the count as it was, and the loop goes on
  with the remaining artifacts. Over the file system \<open>posix\<close> the failed attempt leaves
  the file system as it found it, so the next artifact is handled on the file system it
  would have met without the failure.
\<close>

theorem errors_isolated_per_artifact:
  "(\<exists>c w'. for_loop lib fis n w = (Inr c, w')) \<and>
   (\<exists>c w'. pb_for_loop lib fis n w = (Inr c, w')) \<and>
   (\<forall>e w1. try_body lib fi n w = (Inl e, w1) \<longrightarrow>
      loop_body lib fi n w = (Inr n, print_line (Error_copying (name fi) e) w1) \<and>
      for_loop lib (fi # rest) n w =
        for_loop lib rest n (print_line (Error_copying (name fi) e) w1)) \<and>
   (\<forall>e w1. pb_try_body lib fi n w = (Inl e, w1) \<longrightarrow>
      pb_loop_body lib fi n w = (Inr n, print_line (Error_copying (name fi) e) w1) \<and>
      pb_for_loop lib (fi # rest) n w =
        pb_for_loop lib rest n (print_line (Error_copying (name fi) e) w1)) \<and>
   (\<forall>e w1. try_body posix fi n pw = (Inl e, w1) \<longrightarrow> fsys w1 = fsys pw)"
proof (intro conjI allI impI)
  show "\<exists>c w'. for_loop lib fis n w = (Inr c, w')"
    by (rule for_loop_returns)
  show "\<exists>c w'. pb_for_loop lib fis n w = (Inr c, w')"
    unfolding pb_for_loop_eq by (rule for_loop_returns)
next
  fix e w1
  assume "try_body lib fi n w = (Inl e, w1)"
  then show "loop_body lib fi n w = (Inr n, print_line (Error_copying (name fi) e) w1)"
    and "for_loop lib (fi # rest) n w =
           for_loop lib rest n (print_line (Error_copying (name fi) e) w1)"
    by (rule loop_body_raised, rule for_loop_raised)
next
  fix e w1
  assume "pb_try_body lib fi n w = (Inl e, w1)"
  then have raised: "try_body lib fi n w = (Inl e, w1)"
    by (simp only: pb_try_body_eq)
  show "pb_loop_body lib fi n w = (Inr n, print_line (Error_copying (name fi) e) w1)"
    unfolding pb_loop_body_eq by (rule loop_body_raised [OF raised])
  show "pb_for_loop lib (fi # rest) n w =
          pb_for_loop lib rest n (print_line (Error_copying (name fi) e) w1)"
    unfolding pb_for_loop_eq by (rule for_loop_raised [OF raised])
next
  fix e w1
  assume "try_body posix fi n pw = (Inl e, w1)"
  then have "w1 = pw"
    by (rule posix_try_body_unchanged_on_error)
  then show "fsys w1 = fsys pw"
    by simp
qed

theorem errors_isolated_per_artifact_witness:
  "try_body posix
       \<lparr>source = ex_build @ [''firmware.bin''], dest = ex_firmware @ [''firmware.bin''],
          name = ''Main firmware''\<rparr>
       0 (start (fs_unreadable(ex_firmware \<mapsto> Dir True))) =
     (Inl PermissionError, start (fs_unreadable(ex_firmware \<mapsto> Dir True))) \<and>
   for_loop posix (files_to_copy ex_build ex_firmware) 0
       (start (fs_unreadable(ex_firmware \<mapsto> Dir True))) =
     for_loop posix
       [\<lparr>source = ex_build @ [''spiffs.bin''], dest = ex_firmware @ [''spiffs.bin''],
          name = ''SPIFFS filesystem''\<rparr>]
       0 (print_line (Error_copying ''Main firmware'' PermissionError)
            (start (fs_unreadable(ex_firmware \<mapsto> Dir True)))) \<and>
   fst (for_loop posix (files_to_copy ex_build ex_firmware) 0
       (start (fs_unreadable(ex_firmware \<mapsto> Dir True)))) = Inr 1 \<and>
   fst (for_loop disk_full (files_to_copy ex_build ex_firmware) 0
       (start (fs_both(ex_firmware \<mapsto> Dir True)))) = Inr 0 \<and>
   stdout (snd (for_loop disk_full (files_to_copy ex_build ex_firmware) 0
       (start (fs_both(ex_firmware \<mapsto> Dir True))))) =
     [Error_copying ''Main firmware'' (OSError 28),
      Error_copying ''SPIFFS filesystem'' (OSError 28)]"
proof -
  let ?fw = "\<lparr>source = ex_build @ [''firmware.bin''], dest = ex_firmware @ [''firmware.bin''],
                name = ''Main firmware''\<rparr>"
  let ?sp = "\<lparr>source = ex_build @ [''spiffs.bin''], dest = ex_firmware @ [''spiffs.bin''],
                name = ''SPIFFS filesystem''\<rparr>"
  let ?w = "start (fs_unreadable(ex_firmware \<mapsto> Dir True))"
  have raised: "try_body posix ?fw 0 ?w = (Inl PermissionError, ?w)"
    by (simp add: run_defs posix_defs example_defs fs_unreadable_def Let_def)
  have files: "files_to_copy ex_build ex_firmware = [?fw, ?sp]"
    by (simp add: run_defs)
  from errors_isolated_per_artifact [where lib = posix and fi = ?fw and rest = "[?sp]"
      and n = 0 and w = ?w] raised
  have continued: "for_loop posix [?fw, ?sp] 0 ?w =
      for_loop posix [?sp] 0 (print_line (Error_copying ''Main firmware'' PermissionError) ?w)"
    by (metis file_info.select_convs(3))
  have second: "fst (for_loop posix [?sp] 0
      (print_line (Error_copying ''Main firmware'' PermissionError) ?w)) = Inr 1"
    by (simp add: run_defs posix_defs example_defs fs_unreadable_def Let_def)
  have full: "fst (for_loop disk_full (files_to_copy ex_build ex_firmware) 0
        (start (fs_both(ex_firmware \<mapsto> Dir True)))) = Inr 0"
    "stdout (snd (for_loop disk_full (files_to_copy ex_build ex_firmware) 0
        (start (fs_both(ex_firmware \<mapsto> Dir True))))) =
      [Error_copying ''Main firmware'' (OSError 28),
       Error_copying ''SPIFFS filesystem'' (OSError 28)]"
    by (simp_all add: run_defs posix_defs example_defs fs_unreadable_def disk_full_def Let_def)
  from raised files continued second full show ?thesis
    by (simp only:)
qed

text \<open>
  Claim C8 fails for the post-build script, which has no \<^verbatim>\<open>return\<close> statement: on
  the example where both artifacts are copied it returns \<^verbatim>\<open>None\<close>, while the
  standalone function returns 2.
\<close>

theorem post_build_returns_none_example:
  "fst (pb_copy_firmware_files posix ex_env (start fs_both)) = Inr None \<and>
   copied_lines (stdout (snd (pb_copy_firmware_files posix ex_env (start fs_both)))) = 2 \<and>
   fst (copy_firmware_files posix ex_script (start fs_both)) = Inr 2"
  by (simp add: run_defs posix_defs example_defs copied_lines_def)

text \<open>
  Claim C8, amended. Unless the directory creation raises, the standalone function
  returns the number of artifacts the run reported as copied, and the post-build
  function returns \<^verbatim>\<open>None\<close>; its count only appears in the summary it prints.
\<close>

theorem return_values:
  "fst (copy_firmware_files lib sf w) =
     (case fst (path_mkdir lib (path_join (path_parent (path_parent sf)) ''firmware'') (fsys w)) of
        Inl e \<Rightarrow> Inl e
      | Inr u \<Rightarrow> Inr (copied_lines (stdout (snd (copy_firmware_files lib sf w)))
                      - copied_lines (stdout w))) \<and>
   fst (pb_copy_firmware_files lib env w) =
     (case fst (path_mkdir lib (path_join (PROJECT_DIR env) ''firmware'') (fsys w)) of
        Inl e \<Rightarrow> Inl e
      | Inr u \<Rightarrow> Inr None)"
proof
  obtain r w' where run: "copy_firmware_files lib sf w = (r, w')"
    by (cases "copy_firmware_files lib sf w")
  from copy_firmware_files_cases [of lib sf w] copy_firmware_files_copied [OF run] run
  show "fst (copy_firmware_files lib sf w) =
     (case fst (path_mkdir lib (path_join (path_parent (path_parent sf)) ''firmware'') (fsys w)) of
        Inl e \<Rightarrow> Inl e
      | Inr u \<Rightarrow> Inr (copied_lines (stdout (snd (copy_firmware_files lib sf w)))
                      - copied_lines (stdout w)))"
    by (auto simp: print_line_def)
next
  obtain c w2 where "for_loop lib
      (files_to_copy
         (path_join (path_join (path_join (PROJECT_DIR env) ''.pio'') ''build'') (PIOENV env))
         (path_join (PROJECT_DIR env) ''firmware''))
      0 ((print_line Banner (print_line Rule w))
           \<lparr>fsys := snd (path_mkdir lib (path_join (PROJECT_DIR env) ''firmware'') (fsys w))\<rparr>)
      = (Inr c, w2)"
    using for_loop_returns by blast
  then show "fst (pb_copy_firmware_files lib env w) =
     (case fst (path_mkdir lib (path_join (PROJECT_DIR env) ''firmware'') (fsys w)) of
        Inl e \<Rightarrow> Inl e
      | Inr u \<Rightarrow> Inr None)"
    by (auto simp: pb_copy_firmware_files_def Let_def pb_for_loop_eq pb_files_to_copy_eq
        print_line_def split: prod.splits sum.splits)
qed

theorem return_values_witness:
  "fst (copy_firmware_files posix ex_script (start fs_protected)) = Inr 1 \<and>
   copied_lines (stdout (snd (copy_firmware_files posix ex_script (start fs_protected))))
     - copied_lines (stdout (start fs_protected)) = 1 \<and>
   fst (pb_copy_firmware_files posix ex_env (start fs_protected)) = Inr None"
  using return_values [where lib = posix and sf = ex_script and env = ex_env
      and w = "start fs_protected"]
  by (simp add: run_defs posix_defs example_defs fs_protected_def copied_lines_def)

text \<open>
  Claim C7 fails on write-protected sources, as a build may leave them. The first run
  copies both artifacts, and \<^verbatim>\<open>copy2\<close> gives each copy the permission bits of its
  source. The sources are unchanged, but the second run cannot open the write-protected
  copies for writing: because the destination files exist, it reports a permission error
  for each artifact, returns the count 0 where the first returned 2, and the exit status
  of the script is 1.
\<close>

theorem second_run_reports_errors_example:
  "fs_write_protected (ex_build @ [''firmware.bin'']) = Some (File [1, 2, 3] True False) \<and>
   fs_write_protected (ex_build @ [''spiffs.bin'']) = Some (File [4, 5] True False) \<and>
   fst (copy_firmware_files posix ex_script (start fs_write_protected)) = Inr 2 \<and>
   fsys (snd (copy_firmware_files posix ex_script (start fs_write_protected)))
       (ex_build @ [''firmware.bin'']) = Some (File [1, 2, 3] True False) \<and>
   fsys (snd (copy_firmware_files posix ex_script (start fs_write_protected)))
       (ex_build @ [''spiffs.bin'']) = Some (File [4, 5] True False) \<and>
   fst (copy_firmware_files posix ex_script
         (snd (copy_firmware_files posix ex_script (start fs_write_protected)))) = Inr 0 \<and>
   stdout (snd (copy_firmware_files posix ex_script
         (snd (copy_firmware_files posix ex_script (start fs_write_protected))))) =
     [Rule, Banner, Copied ''Main firmware'' ''firmware.bin'' 3,
      Copied ''SPIFFS filesystem'' ''spiffs.bin'' 2, Summary 2, Ready, Rule,
      Rule, Banner, Error_copying ''Main firmware'' PermissionError,
      Error_copying ''SPIFFS filesystem'' PermissionError, No_files_copied, Rule] \<and>
   fst (script_main posix ex_script
         (snd (copy_firmware_files posix ex_script (start fs_write_protected)))) = 1"
  by (simp add: run_defs posix_defs example_defs fs_write_protected_def Let_def)

text \<open>
  Claim C7, amended. In the file-system model, let the standalone function run twice in
  succession, the second run starting in the world the first one left. The file system
  after the second run is the file system after the first one. If the first run
  returned, so does the second: its directory creation finds the directory and succeeds
  without a change. No run reports a \<^verbatim>\<open>FileExistsError\<close> for an artifact, and creating
  a directory that exists (in a directory) succeeds and changes nothing. If no source is
  a write-protected regular file, the second run ends as the first did, with the same
  count or the same exception, and prints the lines of the first run once more.
\<close>

theorem second_run_idempotent:
  fixes sf :: path and w :: "filesystem world"
  defines "run1 \<equiv> copy_firmware_files posix sf w"
  defines "run2 \<equiv> copy_firmware_files posix sf (snd run1)"
  defines "fd \<equiv> path_join (path_parent (path_parent sf)) ''firmware''"
  defines "bd \<equiv>
    path_join (path_join (path_join (path_parent (path_parent sf)) ''.pio'') ''build'')
      ''esp32doit-devkit-v1''"
  shows "fsys (snd run2) = fsys (snd run1) \<and>
         ((\<exists>c. fst run1 = Inr c) \<longrightarrow>
            (\<exists>c. fst run2 = Inr c) \<and>
            posix_mkdir fd (fsys (snd run1)) = (Inr (), fsys (snd run1))) \<and>
         (\<forall>l. Error_copying l FileExistsError \<in> set (stdout (snd run2)) \<longrightarrow>
              Error_copying l FileExistsError \<in> set (stdout w)) \<and>
         (is_dir fs p \<and> is_dir fs (path_parent p) \<longrightarrow> posix_mkdir p fs = (Inr (), fs)) \<and>
         ((\<forall>c r. fsys w (path_join bd ''firmware.bin'') \<noteq> Some (File c r False)) \<and>
          (\<forall>c r. fsys w (path_join bd ''spiffs.bin'') \<noteq> Some (File c r False)) \<longrightarrow>
            fst run2 = fst run1 \<and>
            stdout (snd run2) =
              stdout (snd run1) @ drop (length (stdout w)) (stdout (snd run1)))"
proof -
  define pd where "pd = butlast (butlast sf)"
  define fis where "fis = files_to_copy (pd @ [''.pio'', ''build'', ''esp32doit-devkit-v1''])
    (pd @ [''firmware''])"
  let ?G = "\<lambda>fs. foldl (\<lambda>fs fi. artifact_fs fi fs) fs fis"
  have fd: "fd = pd @ [''firmware'']"
    by (simp add: fd_def pd_def path_join_def path_parent_def)
  have after: "\<And>v. fsys (snd (copy_firmware_files posix sf v)) =
      (case posix_mkdir fd (fsys v) of (Inl e, fs1) \<Rightarrow> fs1 | (Inr u, fs1) \<Rightarrow> ?G fs1)"
    unfolding fd fis_def pd_def by (rule copy_firmware_files_posix_fsys_paths)
  have returns: "\<And>v. (\<exists>c. fst (copy_firmware_files posix sf v) = Inr c) \<longleftrightarrow>
      (\<exists>u. fst (posix_mkdir fd (fsys v)) = Inr u)"
    by (simp add: copy_firmware_files_returns_iff fd_def posix_def)
  obtain m fs1 where mk: "posix_mkdir fd (fsys w) = (m, fs1)"
    by (cases "posix_mkdir fd (fsys w)")
  have main: "fsys (snd run2) = fsys (snd run1) \<and>
         ((\<exists>c. fst run1 = Inr c) \<longrightarrow>
            (\<exists>c. fst run2 = Inr c) \<and>
            posix_mkdir fd (fsys (snd run1)) = (Inr (), fsys (snd run1)))"
  proof (cases m)
    case (Inl e)
    with mk posix_mkdir_raised [of fd "fsys w" e fs1] have same: "fs1 = fsys w"
      by simp
    with Inl mk have one: "fsys (snd run1) = fsys w"
      by (simp add: run1_def after)
    from Inl mk returns [of w] have "\<not> (\<exists>c. fst run1 = Inr c)"
      by (simp add: run1_def)
    moreover from one same Inl mk have "fsys (snd run2) = fsys (snd run1)"
      by (simp add: run2_def after)
    ultimately show ?thesis by blast
  next
    case (Inr u)
    with mk have one: "fsys (snd run1) = ?G fs1"
      by (simp add: run1_def after)
    from posix_mkdir_done [of fd "fsys w" u fs1] mk Inr
    have dirs: "is_dir fs1 fd" "is_dir fs1 (path_parent fd)"
      by simp_all
    have "?G fs1 fd = fs1 fd" "?G fs1 (path_parent fd) = fs1 (path_parent fd)"
      unfolding fd fis_def by (rule two_artifacts_other, simp add: path_parent_def)+
    with dirs have "is_dir (?G fs1) fd" "is_dir (?G fs1) (path_parent fd)"
      by (simp_all add: is_dir_def)
    then have again: "posix_mkdir fd (?G fs1) = (Inr (), ?G fs1)"
      by (rule posix_mkdir_existing)
    with one have "fsys (snd run2) = ?G (?G fs1)"
      by (simp add: run2_def after)
    also have "\<dots> = ?G fs1"
      unfolding fis_def by (rule two_artifacts_twice)
    finally have "fsys (snd run2) = fsys (snd run1)"
      by (simp add: one)
    moreover from again one returns [of "snd run1"] have "\<exists>c. fst run2 = Inr c"
      by (simp add: run2_def)
    ultimately show ?thesis using again one by simp
  qed
  have quiet: "\<forall>l. Error_copying l FileExistsError \<in> set (stdout (snd run2)) \<longrightarrow>
              Error_copying l FileExistsError \<in> set (stdout w)"
    unfolding run2_def run1_def
    by (blast dest: copy_firmware_files_posix_no_exists_error)
  have tolerant: "is_dir fs p \<and> is_dir fs (path_parent p) \<longrightarrow> posix_mkdir p fs = (Inr (), fs)"
    using posix_mkdir_existing [of fs p] by blast
  define fw where "fw = \<lparr>source = pd @ [''.pio'', ''build'', ''esp32doit-devkit-v1'',
    ''firmware.bin''], dest = pd @ [''firmware'', ''firmware.bin''], name = ''Main firmware''\<rparr>"
  define sp where "sp = \<lparr>source = pd @ [''.pio'', ''build'', ''esp32doit-devkit-v1'',
    ''spiffs.bin''], dest = pd @ [''firmware'', ''spiffs.bin''], name = ''SPIFFS filesystem''\<rparr>"
  define tail where "tail = (\<lambda>k :: int.
    if k > 0 then [Summary k, Ready, Rule] else [No_files_copied, Rule])"
  have summary: "\<And>k v. stdout (print_summary k v) = stdout v @ tail k"
    by (simp add: print_summary_def print_line_def tail_def)
  have returned: "\<And>(v :: filesystem world) u s. posix_mkdir fd (fsys v) = (Inr u, s) \<Longrightarrow>
      copy_firmware_files posix sf v =
        (Inr (snd (artifact_report fw s) + snd (artifact_report sp (artifact_fs fw s))),
         print_summary (snd (artifact_report fw s) + snd (artifact_report sp (artifact_fs fw s)))
           \<lparr>fsys = artifact_fs sp (artifact_fs fw s),
              stdout = stdout v @ [Rule, Banner, fst (artifact_report fw s),
                fst (artifact_report sp (artifact_fs fw s))]\<rparr>)"
  proof -
    fix v :: "filesystem world" and u s
    assume "posix_mkdir fd (fsys v) = (Inr u, s)"
    then have "posix_mkdir (path_join (path_parent (path_parent sf)) ''firmware'') (fsys v) =
        (Inr u, s)"
      by (simp add: fd_def)
    from copy_firmware_files_posix_returned [OF this] show "copy_firmware_files posix sf v =
        (Inr (snd (artifact_report fw s) + snd (artifact_report sp (artifact_fs fw s))),
         print_summary (snd (artifact_report fw s) + snd (artifact_report sp (artifact_fs fw s)))
           \<lparr>fsys = artifact_fs sp (artifact_fs fw s),
              stdout = stdout v @ [Rule, Banner, fst (artifact_report fw s),
                fst (artifact_report sp (artifact_fs fw s))]\<rparr>)"
      by (simp add: fw_def sp_def pd_def path_join_def path_parent_def)
  qed
  have repeat: "(\<forall>c r. fsys w (path_join bd ''firmware.bin'') \<noteq> Some (File c r False)) \<and>
      (\<forall>c r. fsys w (path_join bd ''spiffs.bin'') \<noteq> Some (File c r False)) \<longrightarrow>
      fst run2 = fst run1 \<and>
      stdout (snd run2) = stdout (snd run1) @ drop (length (stdout w)) (stdout (snd run1))"
  proof (intro impI, elim conjE)
    assume "\<forall>c r. fsys w (path_join bd ''firmware.bin'') \<noteq> Some (File c r False)"
      and "\<forall>c r. fsys w (path_join bd ''spiffs.bin'') \<noteq> Some (File c r False)"
    then have bits: "\<forall>c r. fsys w (source fw) \<noteq> Some (File c r False)"
      "\<forall>c r. fsys w (source sp) \<noteq> Some (File c r False)"
      by (simp_all add: bd_def fw_def sp_def pd_def path_join_def path_parent_def)
    show "fst run2 = fst run1 \<and>
      stdout (snd run2) = stdout (snd run1) @ drop (length (stdout w)) (stdout (snd run1))"
    proof (cases m)
      case (Inl e)
      with mk posix_mkdir_raised [of fd "fsys w" e fs1] have same: "fs1 = fsys w"
        by simp
      from mk Inl same
      have "path_mkdir posix (path_join (path_parent (path_parent sf)) ''firmware'') (fsys w) =
          (Inl e, fsys w)"
        by (simp add: posix_def fd_def)
      from copy_firmware_files_raised [OF this]
      have one: "run1 = (Inl e, (print_line Banner (print_line Rule w))\<lparr>fsys := fsys w\<rparr>)"
        by (simp add: run1_def)
      then have "fsys (snd run1) = fsys w"
        by simp
      with mk Inl same
      have "path_mkdir posix (path_join (path_parent (path_parent sf)) ''firmware'')
          (fsys (snd run1)) = (Inl e, fsys w)"
        by (simp add: posix_def fd_def)
      from copy_firmware_files_raised [OF this]
      have two: "run2 =
          (Inl e, (print_line Banner (print_line Rule (snd run1)))\<lparr>fsys := fsys w\<rparr>)"
        by (simp add: run2_def)
      have "stdout (snd run1) = stdout w @ [Rule, Banner]"
        by (simp add: one print_line_def)
      moreover have "stdout (snd run2) = stdout (snd run1) @ [Rule, Banner]"
        by (simp add: two print_line_def)
      ultimately show ?thesis
        using one two by simp
    next
      case (Inr u)
      let ?A = "artifact_fs fw fs1"
      let ?G = "artifact_fs sp ?A"
      let ?k = "snd (artifact_report fw fs1) + snd (artifact_report sp ?A)"
      let ?ls = "[Rule, Banner, fst (artifact_report fw fs1), fst (artifact_report sp ?A)]"
      from mk Inr have one: "run1 = (Inr ?k, print_summary ?k \<lparr>fsys = ?G, stdout = stdout w @ ?ls\<rparr>)"
        unfolding run1_def by (intro returned) simp
      then have state: "fsys (snd run1) = ?G"
        by simp
      from posix_mkdir_done [of fd "fsys w" u fs1] mk Inr
      have dirs: "is_dir fs1 fd" "is_dir fs1 (path_parent fd)"
        and fs1: "fs1 = fsys w \<or> fs1 = (fsys w)(fd \<mapsto> Dir True)"
        by auto
      have "?G fd = ?A fd" "?A fd = fs1 fd" "?G (path_parent fd) = ?A (path_parent fd)"
        "?A (path_parent fd) = fs1 (path_parent fd)"
        by (intro artifact_fs_other;
            simp add: fd fw_def sp_def path_name_def path_parent_def butlast_append)+
      with dirs have "is_dir ?G fd" "is_dir ?G (path_parent fd)"
        by (simp_all add: is_dir_def)
      then have "posix_mkdir fd ?G = (Inr (), ?G)"
        by (rule posix_mkdir_existing)
      with state have "posix_mkdir fd (fsys (snd run1)) = (Inr (), ?G)"
        by simp
      from returned [OF this]
      have two: "run2 =
          (Inr (snd (artifact_report fw ?G) + snd (artifact_report sp (artifact_fs fw ?G))),
           print_summary
             (snd (artifact_report fw ?G) + snd (artifact_report sp (artifact_fs fw ?G)))
             \<lparr>fsys = artifact_fs sp (artifact_fs fw ?G),
                stdout = stdout (snd run1) @ [Rule, Banner, fst (artifact_report fw ?G),
                  fst (artifact_report sp (artifact_fs fw ?G))]\<rparr>)"
        by (simp add: run2_def)
      from fs1 bits have bits1: "\<forall>c r. fs1 (source fw) \<noteq> Some (File c r False)"
        "\<forall>c r. fs1 (source sp) \<noteq> Some (File c r False)"
        by (auto simp: fd fw_def sp_def)
      from two_artifacts_report [of fs1 pd "''esp32doit-devkit-v1''"] bits1
      have again: "artifact_report fw ?G = artifact_report fw fs1"
        "artifact_fs fw ?G = ?G"
        "artifact_report sp ?G = artifact_report sp ?A"
        by (simp_all add: fw_def sp_def)
      from two again
      have two': "run2 = (Inr ?k, print_summary ?k
          \<lparr>fsys = artifact_fs sp ?G, stdout = stdout (snd run1) @ ?ls\<rparr>)"
        by simp
      have "stdout (snd run1) = stdout w @ ?ls @ tail ?k"
        by (simp add: one summary)
      moreover have "stdout (snd run2) = stdout (snd run1) @ ?ls @ tail ?k"
        by (simp add: two' summary)
      ultimately have "stdout (snd run2) =
          stdout (snd run1) @ drop (length (stdout w)) (stdout (snd run1))"
        by simp
      moreover from one two' have "fst run2 = fst run1"
        by simp
      ultimately show ?thesis by simp
    qed
  qed
  show ?thesis
    by (intro conjI main [THEN conjunct1] main [THEN conjunct2] quiet tolerant repeat)
qed

theorem second_run_idempotent_witness:
  "fs_both (ex_build @ [''firmware.bin'']) = Some (File [1, 2, 3] True True) \<and>
   fs_both (ex_build @ [''spiffs.bin'']) = Some (File [4, 5] True True) \<and>
   fst (copy_firmware_files posix ex_script (start fs_both)) = Inr 2 \<and>
   fsys (snd (copy_firmware_files posix ex_script
               (snd (copy_firmware_files posix ex_script (start fs_both))))) =
     fsys (snd (copy_firmware_files posix ex_script (start fs_both))) \<and>
   (\<exists>c. fst (copy_firmware_files posix ex_script
               (snd (copy_firmware_files posix ex_script (start fs_both)))) = Inr c) \<and>
   posix_mkdir ex_firmware (fsys (snd (copy_firmware_files posix ex_script (start fs_both)))) =
     (Inr (), fsys (snd (copy_firmware_files posix ex_script (start fs_both)))) \<and>
   fst (copy_firmware_files posix ex_script
         (snd (copy_firmware_files posix ex_script (start fs_both)))) = Inr 2 \<and>
   stdout (snd (copy_firmware_files posix ex_script
         (snd (copy_firmware_files posix ex_script (start fs_both))))) =
     [Rule, Banner, Copied ''Main firmware'' ''firmware.bin'' 3,
      Copied ''SPIFFS filesystem'' ''spiffs.bin'' 2, Summary 2, Ready, Rule,
      Rule, Banner, Copied ''Main firmware'' ''firmware.bin'' 3,
      Copied ''SPIFFS filesystem'' ''spiffs.bin'' 2, Summary 2, Ready, Rule]"
proof -
  have first: "fst (copy_firmware_files posix ex_script (start fs_both)) = Inr 2"
    "stdout (snd (copy_firmware_files posix ex_script (start fs_both))) =
       [Rule, Banner, Copied ''Main firmware'' ''firmware.bin'' 3,
        Copied ''SPIFFS filesystem'' ''spiffs.bin'' 2, Summary 2, Ready, Rule]"
    by (simp_all add: run_defs posix_defs example_defs Let_def)
  have dir: "path_join (path_parent (path_parent ex_script)) ''firmware'' = ex_firmware"
    "path_join (path_join (path_join (path_parent (path_parent ex_script)) ''.pio'') ''build'')
       ''esp32doit-devkit-v1'' = ex_build"
    by (simp_all add: run_defs example_defs)
  have sources: "fs_both (ex_build @ [''firmware.bin'']) = Some (File [1, 2, 3] True True)"
    "fs_both (ex_build @ [''spiffs.bin'']) = Some (File [4, 5] True True)"
    by (simp_all add: example_defs)
  have start: "stdout (start fs_both) = []" "fsys (start fs_both) = fs_both"
    by (simp_all add: start_def)
  from second_run_idempotent [of ex_script "start fs_both", unfolded dir] first sources start
  show ?thesis
    by (simp add: path_join_def)
qed
text \<open>
  Claim C6 fails when the directory cannot be created. No artifact is built and
  \<^verbatim>\<open>firmware\<close> in the project directory is a regular file: \<^verbatim>\<open>mkdir\<close> raises
  \<^verbatim>\<open>FileExistsError\<close> before the count is set, the exception leaves the function after
  the banner, and no count, so no count of 0, is returned. The exit status is 1.
\<close>

theorem no_sources_no_count_example:
  "posix_exists (ex_build @ [''firmware.bin'']) fs_blocked = Inr False \<and>
   posix_exists (ex_build @ [''spiffs.bin'']) fs_blocked = Inr False \<and>
   copy_firmware_files posix ex_script (start fs_blocked) =
     (Inl FileExistsError, \<lparr>fsys = fs_blocked, stdout = [Rule, Banner]\<rparr>) \<and>
   fst (copy_firmware_files posix ex_script (start fs_blocked)) \<noteq> Inr 0 \<and>
   fst (script_main posix ex_script (start fs_blocked)) = 1"
  by (simp add: run_defs posix_defs example_defs fs_blocked_def Let_def)

text \<open>
  Claim C6, amended. Take a run of the standalone script over any implementation of the
  library calls in which \<^verbatim>\<open>exists()\<close> does not return true for either source in the
  state the creation of \<^verbatim>\<open>firmware/\<close> left. Then the run ends in that state, so no other
  call changed it; it returns the count 0 when the creation of the directory returned,
  and otherwise the exception of that call leaves the function and no count is
  returned; no artifact is reported as copied; and the exit status is 1 in both cases.
  In the file-system model the creation of the directory changes no node but
  \<^verbatim>\<open>firmware/\<close>, which is as before or was absent and is now a directory.
\<close>

theorem no_sources_nothing_copied:
  fixes lib :: "'s pylib" and sf :: path and w :: "'s world" and fs :: filesystem
  defines "project_dir \<equiv> path_parent (path_parent sf)"
  defines "build_dir \<equiv>
    path_join (path_join (path_join project_dir ''.pio'') ''build'') ''esp32doit-devkit-v1''"
  defines "firmware_dir \<equiv> path_join project_dir ''firmware''"
  defines "run \<equiv> copy_firmware_files lib sf w"
  defines "made \<equiv> path_mkdir lib firmware_dir (fsys w)"
  assumes no_firmware: "path_exists lib (path_join build_dir ''firmware.bin'') (snd made) \<noteq>
                          Inr True"
    and no_spiffs: "path_exists lib (path_join build_dir ''spiffs.bin'') (snd made) \<noteq> Inr True"
  shows "fsys (snd run) = snd made \<and>
         fst run = (case fst made of Inl e \<Rightarrow> Inl e | Inr u \<Rightarrow> Inr 0) \<and>
         copied_lines (stdout (snd run)) = copied_lines (stdout w) \<and>
         fst (script_main lib sf w) = 1 \<and>
         (\<forall>p. p \<noteq> firmware_dir \<longrightarrow> snd (posix_mkdir firmware_dir fs) p = fs p) \<and>
         (snd (posix_mkdir firmware_dir fs) firmware_dir = fs firmware_dir \<or>
          fs firmware_dir = None \<and> snd (posix_mkdir firmware_dir fs) firmware_dir = Some (Dir True))"
proof -
  define w0 where "w0 = (print_line Banner (print_line Rule w))\<lparr>fsys := snd made\<rparr>"
  obtain m s where mk: "path_mkdir lib firmware_dir (fsys w) = (m, s)"
    by (cases "path_mkdir lib firmware_dir (fsys w)")
  then have made: "made = (m, s)"
    by (simp add: made_def)
  let ?fw = "\<lparr>source = path_join build_dir ''firmware.bin'',
               dest = path_join firmware_dir ''firmware.bin'', name = ''Main firmware''\<rparr>"
  let ?sp = "\<lparr>source = path_join build_dir ''spiffs.bin'',
               dest = path_join firmware_dir ''spiffs.bin'', name = ''SPIFFS filesystem''\<rparr>"
  have generic: "fsys (snd run) = snd made \<and>
      fst run = (case fst made of Inl e \<Rightarrow> Inl e | Inr u \<Rightarrow> Inr 0) \<and>
      copied_lines (stdout (snd run)) = copied_lines (stdout w) \<and>
      fst (script_main lib sf w) = 1"
  proof (cases m)
    case (Inl e)
    with mk have "copy_firmware_files lib sf w = (Inl e, w0)"
      unfolding w0_def made firmware_dir_def project_dir_def snd_conv
      by (intro copy_firmware_files_raised) simp
    then have "run = (Inl e, w0)"
      by (simp add: run_def)
    with Inl made show ?thesis
      by (simp add: script_main_def run_def [symmetric] w0_def print_line_def copied_lines_def)
  next
    case (Inr u)
    from no_firmware have "path_exists lib (source ?fw) (fsys w0) \<noteq> Inr True"
      by (simp add: w0_def)
    from loop_body_without_copy [OF this, of 0]
    obtain l1 where l1: "\<not> is_copied l1" "loop_body lib ?fw 0 w0 = (Inr 0, print_line l1 w0)"
      by blast
    from no_spiffs have "path_exists lib (source ?sp) (fsys (print_line l1 w0)) \<noteq> Inr True"
      by (simp add: w0_def print_line_def)
    from loop_body_without_copy [OF this, of 0]
    obtain l2 where l2: "\<not> is_copied l2"
      "loop_body lib ?sp 0 (print_line l1 w0) = (Inr 0, print_line l2 (print_line l1 w0))"
      by blast
    from mk Inr have mk': "path_mkdir lib firmware_dir (fsys w) = (Inr u, snd made)"
      by (simp add: made)
    have "copy_firmware_files lib sf w =
        (Inr 0, print_summary 0 (print_line l2 (print_line l1 w0)))"
      using mk' l1(2) l2(2)
      unfolding w0_def build_dir_def firmware_dir_def project_dir_def
      by (rule copy_firmware_files_run)
    then have run: "run = (Inr 0, print_summary 0 (print_line l2 (print_line l1 w0)))"
      by (simp add: run_def)
    have "copied_lines (stdout (snd run)) = copied_lines (stdout w)"
      using l1(1) l2(1)
      by (simp add: run print_summary_copied)
        (simp add: print_line_def w0_def copied_lines_def)
    moreover have "fsys (snd run) = snd made"
      by (simp add: run print_summary_def print_line_def w0_def)
    ultimately show ?thesis
      using run Inr made
      by (simp add: script_main_def run_def [symmetric])
  qed
  note frame = posix_mkdir_frame [of firmware_dir fs]
  note g1 = generic [THEN conjunct1]
    and g2 = generic [THEN conjunct2, THEN conjunct1]
    and g3 = generic [THEN conjunct2, THEN conjunct2, THEN conjunct1]
    and g4 = generic [THEN conjunct2, THEN conjunct2, THEN conjunct2]
  show ?thesis
    by (intro conjI g1 g2 g3 g4 frame [THEN conjunct1] frame [THEN conjunct2])
qed


theorem no_sources_nothing_copied_witness:
  "path_mkdir posix ex_firmware fs_built = (Inr (), fs_built(ex_firmware \<mapsto> Dir True)) \<and>
   path_exists posix (ex_build @ [''firmware.bin'']) (fs_built(ex_firmware \<mapsto> Dir True)) =
     Inr False \<and>
   path_exists posix (ex_build @ [''spiffs.bin'']) (fs_built(ex_firmware \<mapsto> Dir True)) =
     Inr False \<and>
   fsys (snd (copy_firmware_files posix ex_script (start fs_built))) =
     fs_built(ex_firmware \<mapsto> Dir True) \<and>
   fst (copy_firmware_files posix ex_script (start fs_built)) = Inr 0 \<and>
   copied_lines (stdout (snd (copy_firmware_files posix ex_script (start fs_built)))) = 0 \<and>
   fst (script_main posix ex_script (start fs_built)) = 1 \<and>
   ex_firmware @ [''firmware.bin''] \<noteq> ex_firmware \<and>
   snd (posix_mkdir ex_firmware fs_built) (ex_firmware @ [''firmware.bin'']) = None \<and>
   fs_built ex_firmware = None \<and>
   snd (posix_mkdir ex_firmware fs_built) ex_firmware = Some (Dir True) \<and>
   fst (copy_firmware_files posix ex_script (start fs_blocked)) = Inl FileExistsError \<and>
   fsys (snd (copy_firmware_files posix ex_script (start fs_blocked))) = fs_blocked"
proof -
  let ?s0 = "fs_built(ex_firmware \<mapsto> Dir True)"
  have paths: "path_join (path_parent (path_parent ex_script)) ''firmware'' = ex_firmware"
    "path_join (path_join (path_join (path_parent (path_parent ex_script)) ''.pio'') ''build'')
       ''esp32doit-devkit-v1'' = ex_build"
    by (simp_all add: run_defs example_defs)
  have made: "path_mkdir posix ex_firmware (fsys (start fs_built)) = (Inr (), ?s0)"
    by (simp add: posix_defs example_defs path_parent_def)
  have absent: "path_exists posix (path_join ex_build ''firmware.bin'') ?s0 = Inr False"
    "path_exists posix (path_join ex_build ''spiffs.bin'') ?s0 = Inr False"
    by (simp_all add: posix_defs example_defs path_join_def)
  have before: "fs_built ex_firmware = None" "fs_built (ex_firmware @ [''firmware.bin'']) = None"
    by (simp_all add: example_defs)
  have no_firmware: "path_exists posix (path_join ex_build ''firmware.bin'')
      (snd (path_mkdir posix ex_firmware (fsys (start fs_built)))) \<noteq> Inr True"
    and no_spiffs: "path_exists posix (path_join ex_build ''spiffs.bin'')
      (snd (path_mkdir posix ex_firmware (fsys (start fs_built)))) \<noteq> Inr True"
    using absent by (simp_all add: made)
  note run = no_sources_nothing_copied [where lib = posix and sf = ex_script
      and w = "start fs_built" and fs = fs_built, unfolded paths, OF no_firmware no_spiffs]
  have blocked: "path_mkdir posix ex_firmware (fsys (start fs_blocked)) =
      (Inl FileExistsError, fs_blocked)"
    by (simp add: posix_defs example_defs fs_blocked_def path_parent_def)
  have gone: "path_exists posix (path_join ex_build ''firmware.bin'')
      (snd (path_mkdir posix ex_firmware (fsys (start fs_blocked)))) \<noteq> Inr True"
    "path_exists posix (path_join ex_build ''spiffs.bin'')
      (snd (path_mkdir posix ex_firmware (fsys (start fs_blocked)))) \<noteq> Inr True"
    by (simp_all add: blocked) (simp_all add: posix_defs example_defs fs_blocked_def path_join_def)
  note run' = no_sources_nothing_copied [where lib = posix and sf = ex_script
      and w = "start fs_blocked" and fs = fs_blocked, unfolded paths, OF gone]
  have second: "fst (copy_firmware_files posix ex_script (start fs_blocked)) =
        Inl FileExistsError \<and>
      fsys (snd (copy_firmware_files posix ex_script (start fs_blocked))) = fs_blocked"
    using run' [THEN conjunct1] run' [THEN conjunct2, THEN conjunct1]
    by (simp add: blocked)
  have stdout0: "copied_lines (stdout (start fs_built)) = 0"
    by (simp add: start_def copied_lines_def)
  from run made absent before stdout0 second show ?thesis
    by (simp add: path_join_def start_def posix_def)
qed
text \<open>
  Claim C1 fails when a target cannot be written. Both artifacts are built and readable,
  and \<^verbatim>\<open>firmware/\<close> holds a write-protected \<^verbatim>\<open>firmware.bin\<close>: the copy of the first
  artifact raises a permission error, the target keeps its one byte, and the count is 1.
\<close>

theorem both_sources_one_copied_example:
  "fs_protected (ex_build @ [''firmware.bin'']) = Some (File [1, 2, 3] True True) \<and>
   fs_protected (ex_build @ [''spiffs.bin'']) = Some (File [4, 5] True True) \<and>
   fst (copy_firmware_files posix ex_script (start fs_protected)) = Inr 1 \<and>
   fsys (snd (copy_firmware_files posix ex_script (start fs_protected)))
       (ex_firmware @ [''firmware.bin'']) = Some (File [9] True False) \<and>
   stdout (snd (copy_firmware_files posix ex_script (start fs_protected))) =
     [Rule, Banner, Error_copying ''Main firmware'' PermissionError,
      Copied ''SPIFFS filesystem'' ''spiffs.bin'' 2, Summary 1, Ready, Rule]"
  by (simp add: run_defs posix_defs example_defs fs_protected_def Let_def)

text \<open>
  Claim C1, amended. Take a run of the standalone script over any implementation of the
  library calls in which the creation of \<^verbatim>\<open>firmware/\<close> returns, \<^verbatim>\<open>exists()\<close> is true for
  both sources, and for both artifacts \<^verbatim>\<open>copy2\<close> and the \<^verbatim>\<open>stat\<close> that follows it return.
  Then the count is 2, the run ends in the state the second copy left, the report has a
  copied line for each artifact with the size \<^verbatim>\<open>stat\<close> returned, and the exit status is 0.
  What such copies leave is stated in the file-system model: when the creation of the
  directory and the two copies return there, and neither destination was a directory,
  each destination holds the node of its source, so the same size.
\<close>

theorem both_sources_copied:
  fixes lib :: "'s pylib" and sf :: path and w :: "'s world" and fs :: filesystem
  defines "project_dir \<equiv> path_parent (path_parent sf)"
  defines "build_dir \<equiv>
    path_join (path_join (path_join project_dir ''.pio'') ''build'') ''esp32doit-devkit-v1''"
  defines "firmware_dir \<equiv> path_join project_dir ''firmware''"
  defines "run \<equiv> copy_firmware_files lib sf w"
  assumes made: "path_mkdir lib firmware_dir (fsys w) = (Inr u0, s0)"
    and found1: "path_exists lib (path_join build_dir ''firmware.bin'') s0 = Inr True"
    and copied1: "shutil_copy2 lib (path_join build_dir ''firmware.bin'')
                    (path_join firmware_dir ''firmware.bin'') s0 = (Inr u1, s1)"
    and size1: "path_stat_size lib (path_join firmware_dir ''firmware.bin'') s1 = Inr n1"
    and found2: "path_exists lib (path_join build_dir ''spiffs.bin'') s1 = Inr True"
    and copied2: "shutil_copy2 lib (path_join build_dir ''spiffs.bin'')
                    (path_join firmware_dir ''spiffs.bin'') s1 = (Inr u2, s2)"
    and size2: "path_stat_size lib (path_join firmware_dir ''spiffs.bin'') s2 = Inr n2"
  shows "fst run = Inr 2 \<and>
         fsys (snd run) = s2 \<and>
         stdout (snd run) = stdout w @
           [Rule, Banner, Copied ''Main firmware'' ''firmware.bin'' n1,
            Copied ''SPIFFS filesystem'' ''spiffs.bin'' n2, Summary 2, Ready, Rule] \<and>
         fst (script_main lib sf w) = 0 \<and>
         (posix_mkdir firmware_dir fs = (Inr v0, p0) \<and>
          posix_copy2 (path_join build_dir ''firmware.bin'')
            (path_join firmware_dir ''firmware.bin'') p0 = (Inr v1, p1) \<and>
          posix_copy2 (path_join build_dir ''spiffs.bin'')
            (path_join firmware_dir ''spiffs.bin'') p1 = (Inr v2, p2) \<and>
          \<not> is_dir fs (path_join firmware_dir ''firmware.bin'') \<and>
          \<not> is_dir fs (path_join firmware_dir ''spiffs.bin'') \<longrightarrow>
          p2 (path_join firmware_dir ''firmware.bin'') = fs (path_join build_dir ''firmware.bin'') \<and>
          p2 (path_join firmware_dir ''spiffs.bin'') = fs (path_join build_dir ''spiffs.bin'') \<and>
          posix_stat_size (path_join firmware_dir ''firmware.bin'') p2 =
            posix_stat_size (path_join build_dir ''firmware.bin'') fs \<and>
          posix_stat_size (path_join firmware_dir ''spiffs.bin'') p2 =
            posix_stat_size (path_join build_dir ''spiffs.bin'') fs)"
proof -
  define w0 where "w0 = (print_line Banner (print_line Rule w))\<lparr>fsys := s0\<rparr>"
  define wb where "wb = print_line (Copied ''Main firmware'' ''firmware.bin'' n1)
    (w0\<lparr>fsys := s1\<rparr>)"
  define wc where "wc = print_line (Copied ''SPIFFS filesystem'' ''spiffs.bin'' n2)
    (wb\<lparr>fsys := s2\<rparr>)"
  let ?fw = "\<lparr>source = path_join build_dir ''firmware.bin'',
               dest = path_join firmware_dir ''firmware.bin'', name = ''Main firmware''\<rparr>"
  let ?sp = "\<lparr>source = path_join build_dir ''spiffs.bin'',
               dest = path_join firmware_dir ''spiffs.bin'', name = ''SPIFFS filesystem''\<rparr>"
  have one: "loop_body lib ?fw 0 w0 = (Inr 1, wb)"
    using loop_body_when_copied [of lib ?fw w0 u1 s1 n1 0] found1 copied1 size1
    by (simp add: w0_def wb_def path_name_def path_join_def)
  have two: "loop_body lib ?sp 1 wb = (Inr 2, wc)"
    using loop_body_when_copied [of lib ?sp wb u2 s2 n2 1] found2 copied2 size2
    by (simp add: wb_def wc_def print_line_def path_name_def path_join_def)
  have "copy_firmware_files lib sf w = (Inr 2, print_summary 2 wc)"
    using made one two
    unfolding w0_def build_dir_def firmware_dir_def project_dir_def
    by (rule copy_firmware_files_run)
  then have run: "run = (Inr 2, print_summary 2 wc)"
    by (simp add: run_def)
  have generic: "fst run = Inr 2 \<and> fsys (snd run) = s2 \<and>
      stdout (snd run) = stdout w @
        [Rule, Banner, Copied ''Main firmware'' ''firmware.bin'' n1,
         Copied ''SPIFFS filesystem'' ''spiffs.bin'' n2, Summary 2, Ready, Rule] \<and>
      fst (script_main lib sf w) = 0"
    using run
    by (simp add: script_main_def run_def [symmetric] wc_def wb_def w0_def print_summary_def
        print_line_def)
  have model: "posix_mkdir firmware_dir fs = (Inr v0, p0) \<and>
      posix_copy2 (path_join build_dir ''firmware.bin'')
        (path_join firmware_dir ''firmware.bin'') p0 = (Inr v1, p1) \<and>
      posix_copy2 (path_join build_dir ''spiffs.bin'')
        (path_join firmware_dir ''spiffs.bin'') p1 = (Inr v2, p2) \<and>
      \<not> is_dir fs (path_join firmware_dir ''firmware.bin'') \<and>
      \<not> is_dir fs (path_join firmware_dir ''spiffs.bin'') \<longrightarrow>
      p2 (path_join firmware_dir ''firmware.bin'') = fs (path_join build_dir ''firmware.bin'') \<and>
      p2 (path_join firmware_dir ''spiffs.bin'') = fs (path_join build_dir ''spiffs.bin'') \<and>
      posix_stat_size (path_join firmware_dir ''firmware.bin'') p2 =
        posix_stat_size (path_join build_dir ''firmware.bin'') fs \<and>
      posix_stat_size (path_join firmware_dir ''spiffs.bin'') p2 =
        posix_stat_size (path_join build_dir ''spiffs.bin'') fs"
  proof (intro impI, elim conjE)
    assume mk: "posix_mkdir firmware_dir fs = (Inr v0, p0)"
      and c1: "posix_copy2 (path_join build_dir ''firmware.bin'')
        (path_join firmware_dir ''firmware.bin'') p0 = (Inr v1, p1)"
      and c2: "posix_copy2 (path_join build_dir ''spiffs.bin'')
        (path_join firmware_dir ''spiffs.bin'') p1 = (Inr v2, p2)"
      and nd1: "\<not> is_dir fs (path_join firmware_dir ''firmware.bin'')"
      and nd2: "\<not> is_dir fs (path_join firmware_dir ''spiffs.bin'')"
    let ?s1 = "path_join build_dir ''firmware.bin''" and ?d1 = "path_join firmware_dir ''firmware.bin''"
    let ?s2 = "path_join build_dir ''spiffs.bin''" and ?d2 = "path_join firmware_dir ''spiffs.bin''"
    have distinct: "?s1 \<noteq> firmware_dir" "?d1 \<noteq> firmware_dir" "?s2 \<noteq> firmware_dir"
      "?d2 \<noteq> firmware_dir" "?s2 \<noteq> ?d1" "?d2 \<noteq> ?d1" "?d1 \<noteq> ?d2" "?s1 \<noteq> ?d2"
      by (simp_all add: build_dir_def firmware_dir_def path_join_def)
    from posix_mkdir_frame [of firmware_dir fs] mk
    have p0: "\<And>q. q \<noteq> firmware_dir \<Longrightarrow> p0 q = fs q"
      by simp
    from nd1 p0 [of ?d1] distinct have "\<not> is_dir p0 ?d1"
      by (simp add: is_dir_def)
    from posix_copy2_returned [OF c1 this]
    have p1: "p1 ?d1 = p0 ?s1" "\<And>q. q \<noteq> ?d1 \<Longrightarrow> p1 q = p0 q"
      by simp_all
    from nd2 p1(2) [of ?d2] p0 [of ?d2] distinct have "\<not> is_dir p1 ?d2"
      by (simp add: is_dir_def)
    from posix_copy2_returned [OF c2 this]
    have p2: "p2 ?d2 = p1 ?s2" "\<And>q. q \<noteq> ?d2 \<Longrightarrow> p2 q = p1 q"
      by simp_all
    have first: "p2 ?d1 = fs ?s1"
      using p2(2) [of ?d1] p1(1) p0 [of ?s1] distinct by simp
    have second: "p2 ?d2 = fs ?s2"
      using p2(1) p1(2) [of ?s2] p0 [of ?s2] distinct by simp
    from first second show "p2 ?d1 = fs ?s1 \<and> p2 ?d2 = fs ?s2 \<and>
        posix_stat_size ?d1 p2 = posix_stat_size ?s1 fs \<and>
        posix_stat_size ?d2 p2 = posix_stat_size ?s2 fs"
      by (simp add: posix_stat_size_def)
  qed
  from generic model show ?thesis
    by (simp only: conj_assoc simp_thms)
qed

theorem both_sources_copied_witness:
  "path_mkdir posix ex_firmware fs_both = (Inr (), fs_both(ex_firmware \<mapsto> Dir True)) \<and>
   path_exists posix (ex_build @ [''firmware.bin'']) (fs_both(ex_firmware \<mapsto> Dir True)) =
     Inr True \<and>
   shutil_copy2 posix (ex_build @ [''firmware.bin'']) (ex_firmware @ [''firmware.bin''])
       (fs_both(ex_firmware \<mapsto> Dir True)) =
     (Inr (), fs_both(ex_firmware \<mapsto> Dir True,
        ex_firmware @ [''firmware.bin''] \<mapsto> File [1, 2, 3] True True)) \<and>
   fst (copy_firmware_files posix ex_script (start fs_both)) = Inr 2 \<and>
   fst (script_main posix ex_script (start fs_both)) = 0 \<and>
   fsys (snd (copy_firmware_files posix ex_script (start fs_both))) =
     fs_both(ex_firmware \<mapsto> Dir True,
       ex_firmware @ [''firmware.bin''] \<mapsto> File [1, 2, 3] True True,
       ex_firmware @ [''spiffs.bin''] \<mapsto> File [4, 5] True True) \<and>
   stdout (snd (copy_firmware_files posix ex_script (start fs_both))) =
     [Rule, Banner, Copied ''Main firmware'' ''firmware.bin'' 3,
      Copied ''SPIFFS filesystem'' ''spiffs.bin'' 2, Summary 2, Ready, Rule] \<and>
   \<not> is_dir fs_both (ex_firmware @ [''firmware.bin'']) \<and>
   \<not> is_dir fs_both (ex_firmware @ [''spiffs.bin'']) \<and>
   posix_stat_size (ex_firmware @ [''firmware.bin''])
       (fsys (snd (copy_firmware_files posix ex_script (start fs_both)))) =
     posix_stat_size (ex_build @ [''firmware.bin'']) fs_both \<and>
   posix_stat_size (ex_firmware @ [''spiffs.bin''])
       (fsys (snd (copy_firmware_files posix ex_script (start fs_both)))) =
     posix_stat_size (ex_build @ [''spiffs.bin'']) fs_both"
proof -
  let ?s0 = "fs_both(ex_firmware \<mapsto> Dir True)"
  let ?s1 = "fs_both(ex_firmware \<mapsto> Dir True,
    ex_firmware @ [''firmware.bin''] \<mapsto> File [1, 2, 3] True True)"
  let ?s2 = "fs_both(ex_firmware \<mapsto> Dir True,
    ex_firmware @ [''firmware.bin''] \<mapsto> File [1, 2, 3] True True,
    ex_firmware @ [''spiffs.bin''] \<mapsto> File [4, 5] True True)"
  have paths: "path_join (path_parent (path_parent ex_script)) ''firmware'' = ex_firmware"
    "path_join (path_join (path_join (path_parent (path_parent ex_script)) ''.pio'') ''build'')
       ''esp32doit-devkit-v1'' = ex_build"
    by (simp_all add: run_defs example_defs)
  have made: "path_mkdir posix ex_firmware (fsys (start fs_both)) = (Inr (), ?s0)"
    by (simp add: posix_defs example_defs path_parent_def)
  have found1: "path_exists posix (path_join ex_build ''firmware.bin'') ?s0 = Inr True"
    by (simp add: posix_defs example_defs path_join_def)
  have copied1: "shutil_copy2 posix (path_join ex_build ''firmware.bin'')
      (path_join ex_firmware ''firmware.bin'') ?s0 = (Inr (), ?s1)"
    by (simp add: posix_defs example_defs path_join_def path_parent_def path_name_def)
  have size1: "path_stat_size posix (path_join ex_firmware ''firmware.bin'') ?s1 = Inr 3"
    by (simp add: posix_defs example_defs path_join_def)
  have found2: "path_exists posix (path_join ex_build ''spiffs.bin'') ?s1 = Inr True"
    by (simp add: posix_defs example_defs path_join_def)
  have copied2: "shutil_copy2 posix (path_join ex_build ''spiffs.bin'')
      (path_join ex_firmware ''spiffs.bin'') ?s1 = (Inr (), ?s2)"
    by (simp add: posix_defs example_defs path_join_def path_parent_def path_name_def)
  have size2: "path_stat_size posix (path_join ex_firmware ''spiffs.bin'') ?s2 = Inr 2"
    by (simp add: posix_defs example_defs path_join_def)
  have plain: "\<not> is_dir fs_both (path_join ex_firmware ''firmware.bin'')"
    "\<not> is_dir fs_both (path_join ex_firmware ''spiffs.bin'')"
    by (simp_all add: is_dir_def example_defs path_join_def)
  have calls: "posix_mkdir ex_firmware fs_both = (Inr (), ?s0)"
    "posix_copy2 (path_join ex_build ''firmware.bin'') (path_join ex_firmware ''firmware.bin'')
       ?s0 = (Inr (), ?s1)"
    "posix_copy2 (path_join ex_build ''spiffs.bin'') (path_join ex_firmware ''spiffs.bin'')
       ?s1 = (Inr (), ?s2)"
    using made copied1 copied2 by (simp_all add: posix_def start_def)
  note run = both_sources_copied [where lib = posix and sf = ex_script and w = "start fs_both"
      and fs = fs_both and ?p0.0 = ?s0 and ?p1.0 = ?s1 and ?p2.0 = ?s2
      and ?v0.0 = "()" and ?v1.0 = "()" and ?v2.0 = "()",
      unfolded paths, OF made found1 copied1 size1 found2 copied2 size2]
  from run made found1 copied1 plain calls show ?thesis
    by (simp add: path_join_def start_def posix_stat_size_def example_defs)
qed
text \<open>
  Claim C4 fails in two ways on one example. Only \<^verbatim>\<open>firmware.bin\<close> is built, and
  \<^verbatim>\<open>firmware/\<close> holds the files of an earlier run, its \<^verbatim>\<open>firmware.bin\<close>
  write-protected. The copy raises a permission error, so the count is 0 and the exit
  status 1; and the target of the missing artifact is not absent, since the scripts
  never delete a file.
\<close>

theorem one_source_none_copied_example:
  "fs_stale (ex_build @ [''firmware.bin'']) = Some (File [1, 2, 3] True True) \<and>
   fs_stale (ex_build @ [''spiffs.bin'']) = None \<and>
   fst (copy_firmware_files posix ex_script (start fs_stale)) = Inr 0 \<and>
   fst (script_main posix ex_script (start fs_stale)) = 1 \<and>
   fsys (snd (copy_firmware_files posix ex_script (start fs_stale)))
       (ex_firmware @ [''spiffs.bin'']) = Some (File [8, 8] True True) \<and>
   stdout (snd (copy_firmware_files posix ex_script (start fs_stale))) =
     [Rule, Banner, Error_copying ''Main firmware'' PermissionError,
      Not_found ''SPIFFS filesystem'' ''spiffs.bin'', No_files_copied, Rule]"
  by (simp add: run_defs posix_defs example_defs fs_stale_def Let_def)

text \<open>
  Claim C4, amended. Take a run of the standalone script over any implementation of the
  library calls in which the creation of \<^verbatim>\<open>firmware/\<close> returns, \<^verbatim>\<open>exists()\<close> is true for
  one source and false for the other, and \<^verbatim>\<open>copy2\<close> and the \<^verbatim>\<open>stat\<close> that follows it
  return for the one that exists. Then the count is 1, the exit status is 0, the run ends
  in the state that copy left, and the report has a copied line for the existing artifact,
  a not-found line for the missing one and no error line. Any iteration whose
  \<^verbatim>\<open>exists()\<close> returns false prints the not-found line, keeps count and state and raises
  nothing. In the file-system model the creation of the directory and the copy of the
  existing artifact leave the destination of the missing one as it was, whatever they
  return: absent if it was absent, a file of an earlier run otherwise; and when both
  return and the destination of the existing artifact was not a directory, it holds the
  node of its source, so the same size.
\<close>

theorem one_source_copied:
  fixes lib :: "'s pylib" and sf :: path and w :: "'s world" and fs :: filesystem
    and fi :: file_info and v :: "'s world"
  defines "project_dir \<equiv> path_parent (path_parent sf)"
  defines "build_dir \<equiv>
    path_join (path_join (path_join project_dir ''.pio'') ''build'') ''esp32doit-devkit-v1''"
  defines "firmware_dir \<equiv> path_join project_dir ''firmware''"
  defines "run \<equiv> copy_firmware_files lib sf w"
  assumes names: "present = ''firmware.bin'' \<and> missing = ''spiffs.bin'' \<or>
                  present = ''spiffs.bin'' \<and> missing = ''firmware.bin''"
    and made: "path_mkdir lib firmware_dir (fsys w) = (Inr u0, s0)"
    and found: "path_exists lib (path_join build_dir present) s0 = Inr True"
    and copied: "shutil_copy2 lib (path_join build_dir present)
                   (path_join firmware_dir present) s0 = (Inr u1, s1)"
    and sized: "path_stat_size lib (path_join firmware_dir present) s1 = Inr n"
    and not_found: "path_exists lib (path_join build_dir missing)
                      (if present = ''firmware.bin'' then s1 else s0) = Inr False"
  shows "fst run = Inr 1 \<and>
         fst (script_main lib sf w) = 0 \<and>
         fsys (snd run) = s1 \<and>
         stdout (snd run) = stdout w @ [Rule, Banner] @
           (if present = ''firmware.bin''
            then [Copied ''Main firmware'' ''firmware.bin'' n,
                  Not_found ''SPIFFS filesystem'' ''spiffs.bin'']
            else [Not_found ''Main firmware'' ''firmware.bin'',
                  Copied ''SPIFFS filesystem'' ''spiffs.bin'' n]) @
           [Summary 1, Ready, Rule] \<and>
         (path_exists lib (source fi) (fsys v) = Inr False \<longrightarrow>
            loop_body lib fi c v =
              (Inr c, print_line (Not_found (name fi) (path_name (source fi))) v)) \<and>
         snd (posix_copy2 (path_join build_dir present) (path_join firmware_dir present)
                (snd (posix_mkdir firmware_dir fs))) (path_join firmware_dir missing) =
           fs (path_join firmware_dir missing) \<and>
         (posix_mkdir firmware_dir fs = (Inr v0, p0) \<and>
          posix_copy2 (path_join build_dir present) (path_join firmware_dir present) p0 =
            (Inr v1, p1) \<and>
          \<not> is_dir fs (path_join firmware_dir present) \<longrightarrow>
          p1 (path_join firmware_dir present) = fs (path_join build_dir present) \<and>
          posix_stat_size (path_join firmware_dir present) p1 =
            posix_stat_size (path_join build_dir present) fs)"
proof -
  define w0 where "w0 = (print_line Banner (print_line Rule w))\<lparr>fsys := s0\<rparr>"
  let ?fw = "\<lparr>source = path_join build_dir ''firmware.bin'',
               dest = path_join firmware_dir ''firmware.bin'', name = ''Main firmware''\<rparr>"
  let ?sp = "\<lparr>source = path_join build_dir ''spiffs.bin'',
               dest = path_join firmware_dir ''spiffs.bin'', name = ''SPIFFS filesystem''\<rparr>"
  let ?sp' = "path_join build_dir present" and ?dp = "path_join firmware_dir present"
  let ?dm = "path_join firmware_dir missing"
  have generic: "fst run = Inr 1 \<and> fst (script_main lib sf w) = 0 \<and> fsys (snd run) = s1 \<and>
      stdout (snd run) = stdout w @ [Rule, Banner] @
        (if present = ''firmware.bin''
         then [Copied ''Main firmware'' ''firmware.bin'' n,
               Not_found ''SPIFFS filesystem'' ''spiffs.bin'']
         else [Not_found ''Main firmware'' ''firmware.bin'',
               Copied ''SPIFFS filesystem'' ''spiffs.bin'' n]) @
        [Summary 1, Ready, Rule]"
    using names
  proof (elim disjE conjE)
    assume present: "present = ''firmware.bin''" and missing: "missing = ''spiffs.bin''"
    define wb where "wb = print_line (Copied ''Main firmware'' ''firmware.bin'' n)
      (w0\<lparr>fsys := s1\<rparr>)"
    define wc where "wc = print_line (Not_found ''SPIFFS filesystem'' ''spiffs.bin'') wb"
    have one: "loop_body lib ?fw 0 w0 = (Inr 1, wb)"
      using loop_body_when_copied [of lib ?fw w0 u1 s1 n 0] found copied sized
      by (simp add: w0_def wb_def path_name_def path_join_def present)
    have two: "loop_body lib ?sp 1 wb = (Inr 1, wc)"
      using loop_body_when_missing [of lib ?sp wb 1] not_found
      by (simp add: wb_def wc_def print_line_def path_name_def path_join_def present missing)
    have "copy_firmware_files lib sf w = (Inr 1, print_summary 1 wc)"
      using made one two
      unfolding w0_def build_dir_def firmware_dir_def project_dir_def
      by (rule copy_firmware_files_run)
    then have run: "run = (Inr 1, print_summary 1 wc)"
      by (simp add: run_def)
    then show ?thesis
      by (simp add: script_main_def run_def [symmetric] wc_def wb_def w0_def print_summary_def
          print_line_def present)
  next
    assume present: "present = ''spiffs.bin''" and missing: "missing = ''firmware.bin''"
    define wb where "wb = print_line (Not_found ''Main firmware'' ''firmware.bin'') w0"
    define wc where "wc = print_line (Copied ''SPIFFS filesystem'' ''spiffs.bin'' n)
      (wb\<lparr>fsys := s1\<rparr>)"
    have one: "loop_body lib ?fw 0 w0 = (Inr 0, wb)"
      using loop_body_when_missing [of lib ?fw w0 0] not_found
      by (simp add: w0_def wb_def path_name_def path_join_def present missing)
    have two: "loop_body lib ?sp 0 wb = (Inr 1, wc)"
      using loop_body_when_copied [of lib ?sp wb u1 s1 n 0] found copied sized
      by (simp add: w0_def wb_def wc_def print_line_def path_name_def path_join_def present)
    have "copy_firmware_files lib sf w = (Inr 1, print_summary 1 wc)"
      using made one two
      unfolding w0_def build_dir_def firmware_dir_def project_dir_def
      by (rule copy_firmware_files_run)
    then have run: "run = (Inr 1, print_summary 1 wc)"
      by (simp add: run_def)
    then show ?thesis
      by (simp add: script_main_def run_def [symmetric] wc_def wb_def w0_def print_summary_def
          print_line_def present)
  qed
  have skip: "path_exists lib (source fi) (fsys v) = Inr False \<longrightarrow>
      loop_body lib fi c v = (Inr c, print_line (Not_found (name fi) (path_name (source fi))) v)"
    by (intro impI) (rule loop_body_when_missing)
  from names have distinct: "?dm \<noteq> firmware_dir" "?dm \<noteq> ?dp" "?dm \<noteq> ?dp @ [path_name ?sp']"
    "?dp \<noteq> firmware_dir" "?sp' \<noteq> firmware_dir"
    by (auto simp: build_dir_def firmware_dir_def path_join_def)
  have after_mkdir: "\<And>q. q \<noteq> firmware_dir \<Longrightarrow> snd (posix_mkdir firmware_dir fs) q = fs q"
    using posix_mkdir_frame [of firmware_dir fs] by simp
  have frame: "snd (posix_copy2 ?sp' ?dp (snd (posix_mkdir firmware_dir fs))) ?dm = fs ?dm"
    using posix_copy2_effect [of ?sp' ?dp "snd (posix_mkdir firmware_dir fs)"] distinct
      after_mkdir [of ?dm]
    by auto
  have model: "posix_mkdir firmware_dir fs = (Inr v0, p0) \<and>
      posix_copy2 ?sp' ?dp p0 = (Inr v1, p1) \<and> \<not> is_dir fs ?dp \<longrightarrow>
      p1 ?dp = fs ?sp' \<and> posix_stat_size ?dp p1 = posix_stat_size ?sp' fs"
  proof (intro impI, elim conjE)
    assume mk: "posix_mkdir firmware_dir fs = (Inr v0, p0)"
      and cp: "posix_copy2 ?sp' ?dp p0 = (Inr v1, p1)"
      and nd: "\<not> is_dir fs ?dp"
    from after_mkdir mk have p0: "\<And>q. q \<noteq> firmware_dir \<Longrightarrow> p0 q = fs q"
      by simp
    from nd p0 [of ?dp] distinct have "\<not> is_dir p0 ?dp"
      by (simp add: is_dir_def)
    from posix_copy2_returned [OF cp this] have "p1 ?dp = p0 ?sp'"
      by simp
    with p0 [of ?sp'] distinct have "p1 ?dp = fs ?sp'"
      by simp
    then show "p1 ?dp = fs ?sp' \<and> posix_stat_size ?dp p1 = posix_stat_size ?sp' fs"
      by (simp add: posix_stat_size_def)
  qed
  from generic skip frame model show ?thesis
    by (simp only: conj_assoc simp_thms)
qed


theorem one_source_copied_witness:
  "path_mkdir posix ex_firmware fs_firmware_only =
     (Inr (), fs_firmware_only(ex_firmware \<mapsto> Dir True)) \<and>
   path_exists posix (ex_build @ [''firmware.bin''])
       (fs_firmware_only(ex_firmware \<mapsto> Dir True)) = Inr True \<and>
   shutil_copy2 posix (ex_build @ [''firmware.bin'']) (ex_firmware @ [''firmware.bin''])
       (fs_firmware_only(ex_firmware \<mapsto> Dir True)) =
     (Inr (), fs_firmware_only(ex_firmware \<mapsto> Dir True,
        ex_firmware @ [''firmware.bin''] \<mapsto> File [1, 2, 3] True True)) \<and>
   path_exists posix (ex_build @ [''spiffs.bin''])
       (fs_firmware_only(ex_firmware \<mapsto> Dir True,
          ex_firmware @ [''firmware.bin''] \<mapsto> File [1, 2, 3] True True)) = Inr False \<and>
   fst (copy_firmware_files posix ex_script (start fs_firmware_only)) = Inr 1 \<and>
   fst (script_main posix ex_script (start fs_firmware_only)) = 0 \<and>
   fsys (snd (copy_firmware_files posix ex_script (start fs_firmware_only))) =
     fs_firmware_only(ex_firmware \<mapsto> Dir True,
       ex_firmware @ [''firmware.bin''] \<mapsto> File [1, 2, 3] True True) \<and>
   stdout (snd (copy_firmware_files posix ex_script (start fs_firmware_only))) =
     [Rule, Banner, Copied ''Main firmware'' ''firmware.bin'' 3,
      Not_found ''SPIFFS filesystem'' ''spiffs.bin'', Summary 1, Ready, Rule] \<and>
   loop_body posix
       \<lparr>source = ex_build @ [''spiffs.bin''], dest = ex_firmware @ [''spiffs.bin''],
          name = ''SPIFFS filesystem''\<rparr> 0 (start fs_firmware_only) =
     (Inr 0, print_line (Not_found ''SPIFFS filesystem'' ''spiffs.bin'')
        (start fs_firmware_only)) \<and>
   snd (posix_copy2 (ex_build @ [''firmware.bin'']) (ex_firmware @ [''firmware.bin''])
          (snd (posix_mkdir ex_firmware fs_firmware_only))) (ex_firmware @ [''spiffs.bin'']) =
     None \<and>
   \<not> is_dir fs_firmware_only (ex_firmware @ [''firmware.bin'']) \<and>
   posix_stat_size (ex_firmware @ [''firmware.bin''])
       (fsys (snd (copy_firmware_files posix ex_script (start fs_firmware_only)))) =
     posix_stat_size (ex_build @ [''firmware.bin'']) fs_firmware_only \<and>
   fst (copy_firmware_files posix ex_script (start fs_spiffs_only)) = Inr 1 \<and>
   stdout (snd (copy_firmware_files posix ex_script (start fs_spiffs_only))) =
     [Rule, Banner, Not_found ''Main firmware'' ''firmware.bin'',
      Copied ''SPIFFS filesystem'' ''spiffs.bin'' 2, Summary 1, Ready, Rule]"
proof -
  let ?s0 = "fs_firmware_only(ex_firmware \<mapsto> Dir True)"
  let ?s1 = "fs_firmware_only(ex_firmware \<mapsto> Dir True,
    ex_firmware @ [''firmware.bin''] \<mapsto> File [1, 2, 3] True True)"
  let ?t0 = "fs_spiffs_only(ex_firmware \<mapsto> Dir True)"
  let ?t1 = "fs_spiffs_only(ex_firmware \<mapsto> Dir True,
    ex_firmware @ [''spiffs.bin''] \<mapsto> File [4, 5] True True)"
  let ?sp = "\<lparr>source = ex_build @ [''spiffs.bin''], dest = ex_firmware @ [''spiffs.bin''],
    name = ''SPIFFS filesystem''\<rparr>"
  have paths: "path_join (path_parent (path_parent ex_script)) ''firmware'' = ex_firmware"
    "path_join (path_join (path_join (path_parent (path_parent ex_script)) ''.pio'') ''build'')
       ''esp32doit-devkit-v1'' = ex_build"
    by (simp_all add: run_defs example_defs)
  have made: "path_mkdir posix ex_firmware (fsys (start fs_firmware_only)) = (Inr (), ?s0)"
    by (simp add: posix_defs example_defs path_parent_def)
  have found: "path_exists posix (path_join ex_build ''firmware.bin'') ?s0 = Inr True"
    by (simp add: posix_defs example_defs path_join_def)
  have copied: "shutil_copy2 posix (path_join ex_build ''firmware.bin'')
      (path_join ex_firmware ''firmware.bin'') ?s0 = (Inr (), ?s1)"
    by (simp add: posix_defs example_defs path_join_def path_parent_def path_name_def)
  have sized: "path_stat_size posix (path_join ex_firmware ''firmware.bin'') ?s1 = Inr 3"
    by (simp add: posix_defs example_defs path_join_def)
  have not_found: "path_exists posix (path_join ex_build ''spiffs.bin'')
      (if ''firmware.bin'' = ''firmware.bin'' then ?s1 else ?s0) = Inr False"
    by (simp add: posix_defs example_defs path_join_def)
  have absent: "path_exists posix (source ?sp) (fsys (start fs_firmware_only)) = Inr False"
    by (simp add: posix_defs example_defs)
  have plain: "\<not> is_dir fs_firmware_only (path_join ex_firmware ''firmware.bin'')"
    "fs_firmware_only (path_join ex_firmware ''spiffs.bin'') = None"
    by (simp_all add: is_dir_def example_defs path_join_def)
  have calls: "posix_mkdir ex_firmware fs_firmware_only = (Inr (), ?s0)"
    "posix_copy2 (path_join ex_build ''firmware.bin'') (path_join ex_firmware ''firmware.bin'')
       ?s0 = (Inr (), ?s1)"
    using made copied by (simp_all add: posix_def start_def)
  note run = one_source_copied [where lib = posix and sf = ex_script
      and w = "start fs_firmware_only" and present = "''firmware.bin''"
      and missing = "''spiffs.bin''" and fs = fs_firmware_only and fi = ?sp
      and v = "start fs_firmware_only" and c = 0
      and ?p0.0 = ?s0 and ?p1.0 = ?s1 and ?v0.0 = "()" and ?v1.0 = "()",
      unfolded paths, OF _ made found copied sized not_found]
  have made': "path_mkdir posix ex_firmware (fsys (start fs_spiffs_only)) = (Inr (), ?t0)"
    by (simp add: posix_defs example_defs fs_spiffs_only_def path_parent_def)
  have found': "path_exists posix (path_join ex_build ''spiffs.bin'') ?t0 = Inr True"
    by (simp add: posix_defs example_defs fs_spiffs_only_def path_join_def)
  have copied': "shutil_copy2 posix (path_join ex_build ''spiffs.bin'')
      (path_join ex_firmware ''spiffs.bin'') ?t0 = (Inr (), ?t1)"
    by (simp add: posix_defs example_defs fs_spiffs_only_def path_join_def path_parent_def
        path_name_def)
  have sized': "path_stat_size posix (path_join ex_firmware ''spiffs.bin'') ?t1 = Inr 2"
    by (simp add: posix_defs example_defs fs_spiffs_only_def path_join_def)
  have not_found': "path_exists posix (path_join ex_build ''firmware.bin'')
      (if ''spiffs.bin'' = ''firmware.bin'' then ?t1 else ?t0) = Inr False"
    by (simp add: posix_defs example_defs fs_spiffs_only_def path_join_def)
  note run' = one_source_copied [where lib = posix and sf = ex_script
      and w = "start fs_spiffs_only" and present = "''spiffs.bin''"
      and missing = "''firmware.bin''",
      unfolded paths, OF _ made' found' copied' sized' not_found',
      THEN conjunct1]
    one_source_copied [where lib = posix and sf = ex_script
      and w = "start fs_spiffs_only" and present = "''spiffs.bin''"
      and missing = "''firmware.bin''",
      unfolded paths, OF _ made' found' copied' sized' not_found',
      THEN conjunct2, THEN conjunct2, THEN conjunct2, THEN conjunct1]
  have second: "fst (copy_firmware_files posix ex_script (start fs_spiffs_only)) = Inr 1 \<and>
      stdout (snd (copy_firmware_files posix ex_script (start fs_spiffs_only))) =
        [Rule, Banner, Not_found ''Main firmware'' ''firmware.bin'',
         Copied ''SPIFFS filesystem'' ''spiffs.bin'' 2, Summary 1, Ready, Rule]"
    using run' by (simp add: start_def)
  from run made found copied not_found absent plain calls second show ?thesis
    by (simp add: path_join_def start_def path_name_def posix_stat_size_def example_defs)
qed
text \<open>
  Claim C5 fails for the build directory, and no script has a \<^verbatim>\<open>ConfigurationError\<close>.
  In a project that was never built (no \<^verbatim>\<open>.pio/\<close>) neither script raises: each creates
  \<^verbatim>\<open>firmware/\<close>, reports both artifacts as not found and returns. Where the project
  directory itself is missing, the exception is the \<^verbatim>\<open>FileNotFoundError\<close> of
  \<^verbatim>\<open>mkdir\<close>.
\<close>

theorem missing_build_dir_no_error_example:
  "fs_checkout [''proj''] = Some (Dir True) \<and>
   fs_checkout ex_build = None \<and>
   fst (copy_firmware_files posix ex_script (start fs_checkout)) = Inr 0 \<and>
   stdout (snd (copy_firmware_files posix ex_script (start fs_checkout))) =
     [Rule, Banner, Not_found ''Main firmware'' ''firmware.bin'',
      Not_found ''SPIFFS filesystem'' ''spiffs.bin'', No_files_copied, Rule] \<and>
   fsys (snd (copy_firmware_files posix ex_script (start fs_checkout))) ex_firmware =
     Some (Dir True) \<and>
   fst (pb_copy_firmware_files posix ex_env (start fs_checkout)) = Inr None \<and>
   fst (copy_firmware_files posix ex_script (start fs_root)) = Inl FileNotFoundError"
  by (simp add: run_defs posix_defs example_defs fs_root_def Let_def)

text \<open>
  Claim C5, amended. No script has a \<^verbatim>\<open>ConfigurationError\<close> or a check of a directory;
  a run is decided by the creation of \<^verbatim>\<open>firmware/\<close>. In the file-system model, if the
  project directory is not an existing directory, either script ends with the exception
  that creation raises, a \<^verbatim>\<open>FileNotFoundError\<close> or (the project path being a file) a
  \<^verbatim>\<open>NotADirectoryError\<close>, having printed its two banner lines and nothing about an
  artifact, with the file system unchanged. On every library an exception leaves either
  function exactly when the directory creation raises it, and the function then ends
  with that exception in the state the call left, having printed the two banner lines
  only, so before any copy attempt. On every library, when the directory creation
  returns and \<^verbatim>\<open>exists()\<close> returns false for both sources, either function reports
  both artifacts as not found and raises nothing: the standalone function returns 0 and
  the post-build function \<^verbatim>\<open>None\<close>.
\<close>

theorem missing_project_dir_aborts:
  "(\<not> is_dir (fsys w) (path_parent (path_parent sf)) \<longrightarrow>
      (\<exists>e. (e = FileNotFoundError \<or> e = NotADirectoryError) \<and>
           copy_firmware_files posix sf w = (Inl e, print_line Banner (print_line Rule w)))) \<and>
   (\<not> is_dir (fsys w) (PROJECT_DIR env) \<longrightarrow>
      (\<exists>e. (e = FileNotFoundError \<or> e = NotADirectoryError) \<and>
           pb_copy_firmware_files posix env w = (Inl e, print_line Banner (print_line Rule w)))) \<and>
   (fst (copy_firmware_files lib sf v) = Inl x \<longleftrightarrow>
      fst (path_mkdir lib (path_join (path_parent (path_parent sf)) ''firmware'') (fsys v)) =
        Inl x) \<and>
   (fst (pb_copy_firmware_files lib env v) = Inl x \<longleftrightarrow>
      fst (path_mkdir lib (path_join (PROJECT_DIR env) ''firmware'') (fsys v)) = Inl x) \<and>
   (path_mkdir lib (path_join (path_parent (path_parent sf)) ''firmware'') (fsys v) =
      (Inl x, s) \<longrightarrow>
      copy_firmware_files lib sf v =
        (Inl x, (print_line Banner (print_line Rule v))\<lparr>fsys := s\<rparr>)) \<and>
   (path_mkdir lib (path_join (PROJECT_DIR env) ''firmware'') (fsys v) = (Inl x, s) \<longrightarrow>
      pb_copy_firmware_files lib env v =
        (Inl x, (print_line Banner (print_line Rule v))\<lparr>fsys := s\<rparr>)) \<and>
   (path_mkdir lib (path_join (path_parent (path_parent sf)) ''firmware'') (fsys v) =
      (Inr u, s) \<and>
    path_exists lib
      (path_join
         (path_join
            (path_join (path_join (path_parent (path_parent sf)) ''.pio'') ''build'')
            ''esp32doit-devkit-v1'')
         ''firmware.bin'') s = Inr False \<and>
    path_exists lib
      (path_join
         (path_join
            (path_join (path_join (path_parent (path_parent sf)) ''.pio'') ''build'')
            ''esp32doit-devkit-v1'')
         ''spiffs.bin'') s = Inr False \<longrightarrow>
      copy_firmware_files lib sf v =
        (Inr 0,
         print_summary 0
           (print_line (Not_found ''SPIFFS filesystem'' ''spiffs.bin'')
              (print_line (Not_found ''Main firmware'' ''firmware.bin'')
                 ((print_line Banner (print_line Rule v))\<lparr>fsys := s\<rparr>))))) \<and>
   (path_mkdir lib (path_join (PROJECT_DIR env) ''firmware'') (fsys v) = (Inr u, s) \<and>
    path_exists lib
      (path_join
         (path_join (path_join (path_join (PROJECT_DIR env) ''.pio'') ''build'') (PIOENV env))
         ''firmware.bin'') s = Inr False \<and>
    path_exists lib
      (path_join
         (path_join (path_join (path_join (PROJECT_DIR env) ''.pio'') ''build'') (PIOENV env))
         ''spiffs.bin'') s = Inr False \<longrightarrow>
      pb_copy_firmware_files lib env v =
        (Inr None,
         print_summary 0
           (print_line (Not_found ''SPIFFS filesystem'' ''spiffs.bin'')
              (print_line (Not_found ''Main firmware'' ''firmware.bin'')
                 ((print_line Banner (print_line Rule v))\<lparr>fsys := s\<rparr>)))))"
proof (intro conjI impI)
  assume "\<not> is_dir (fsys w) (path_parent (path_parent sf))"
  then have "\<not> is_dir (fsys w)
      (path_parent (path_join (path_parent (path_parent sf)) ''firmware''))"
    by (simp add: path_parent_def path_join_def)
  from posix_mkdir_no_parent [OF this]
  obtain e where e: "e = FileNotFoundError \<or> e = NotADirectoryError"
    and "posix_mkdir (path_join (path_parent (path_parent sf)) ''firmware'') (fsys w) =
           (Inl e, fsys w)"
    by blast
  then have "path_mkdir posix (path_join (path_parent (path_parent sf)) ''firmware'') (fsys w) =
      (Inl e, fsys w)"
    by (simp add: posix_def)
  from copy_firmware_files_raised [OF this]
  have "copy_firmware_files posix sf w = (Inl e, print_line Banner (print_line Rule w))"
    by (simp add: print_line_def)
  with e show "\<exists>e. (e = FileNotFoundError \<or> e = NotADirectoryError) \<and>
      copy_firmware_files posix sf w = (Inl e, print_line Banner (print_line Rule w))"
    by blast
next
  assume "\<not> is_dir (fsys w) (PROJECT_DIR env)"
  then have "\<not> is_dir (fsys w) (path_parent (path_join (PROJECT_DIR env) ''firmware''))"
    by (simp add: path_parent_def path_join_def)
  from posix_mkdir_no_parent [OF this]
  obtain e where e: "e = FileNotFoundError \<or> e = NotADirectoryError"
    and "posix_mkdir (path_join (PROJECT_DIR env) ''firmware'') (fsys w) = (Inl e, fsys w)"
    by blast
  then have "path_mkdir posix (path_join (PROJECT_DIR env) ''firmware'') (fsys w) =
      (Inl e, fsys w)"
    by (simp add: posix_def)
  from pb_copy_firmware_files_raised [OF this]
  have "pb_copy_firmware_files posix env w = (Inl e, print_line Banner (print_line Rule w))"
    by (simp add: print_line_def)
  with e show "\<exists>e. (e = FileNotFoundError \<or> e = NotADirectoryError) \<and>
      pb_copy_firmware_files posix env w = (Inl e, print_line Banner (print_line Rule w))"
    by blast
next
  show "fst (copy_firmware_files lib sf v) = Inl x \<longleftrightarrow>
      fst (path_mkdir lib (path_join (path_parent (path_parent sf)) ''firmware'') (fsys v)) =
        Inl x"
    by (rule copy_firmware_files_raises_iff)
  show "fst (pb_copy_firmware_files lib env v) = Inl x \<longleftrightarrow>
      fst (path_mkdir lib (path_join (PROJECT_DIR env) ''firmware'') (fsys v)) = Inl x"
    by (rule pb_copy_firmware_files_raises_iff)
next
  assume "path_mkdir lib (path_join (path_parent (path_parent sf)) ''firmware'') (fsys v) =
      (Inl x, s)"
  then show "copy_firmware_files lib sf v =
      (Inl x, (print_line Banner (print_line Rule v))\<lparr>fsys := s\<rparr>)"
    by (rule copy_firmware_files_raised)
next
  assume "path_mkdir lib (path_join (PROJECT_DIR env) ''firmware'') (fsys v) = (Inl x, s)"
  then show "pb_copy_firmware_files lib env v =
      (Inl x, (print_line Banner (print_line Rule v))\<lparr>fsys := s\<rparr>)"
    by (rule pb_copy_firmware_files_raised)
next
  let ?bd = "path_join
    (path_join (path_join (path_parent (path_parent sf)) ''.pio'') ''build'')
    ''esp32doit-devkit-v1''"
  let ?fd = "path_join (path_parent (path_parent sf)) ''firmware''"
  let ?fw = "\<lparr>source = path_join ?bd ''firmware.bin'', dest = path_join ?fd ''firmware.bin'',
    name = ''Main firmware''\<rparr>"
  let ?sp = "\<lparr>source = path_join ?bd ''spiffs.bin'', dest = path_join ?fd ''spiffs.bin'',
    name = ''SPIFFS filesystem''\<rparr>"
  let ?w0 = "(print_line Banner (print_line Rule v))\<lparr>fsys := s\<rparr>"
  let ?wb = "print_line (Not_found ''Main firmware'' ''firmware.bin'') ?w0"
  let ?wc = "print_line (Not_found ''SPIFFS filesystem'' ''spiffs.bin'') ?wb"
  assume "path_mkdir lib ?fd (fsys v) = (Inr u, s) \<and>
    path_exists lib (path_join ?bd ''firmware.bin'') s = Inr False \<and>
    path_exists lib (path_join ?bd ''spiffs.bin'') s = Inr False"
  then have mk: "path_mkdir lib ?fd (fsys v) = (Inr u, s)"
    and no1: "path_exists lib (path_join ?bd ''firmware.bin'') s = Inr False"
    and no2: "path_exists lib (path_join ?bd ''spiffs.bin'') s = Inr False"
    by simp_all
  have one: "loop_body lib ?fw 0 ?w0 = (Inr 0, ?wb)"
    using loop_body_when_missing [of lib ?fw ?w0 0] no1
    by (simp add: path_name_def path_join_def)
  have two: "loop_body lib ?sp 0 ?wb = (Inr 0, ?wc)"
    using loop_body_when_missing [of lib ?sp ?wb 0] no2
    by (simp add: print_line_def path_name_def path_join_def)
  from mk one two show "copy_firmware_files lib sf v = (Inr 0, print_summary 0 ?wc)"
    by (rule copy_firmware_files_run)
next
  let ?bd = "path_join (path_join (path_join (PROJECT_DIR env) ''.pio'') ''build'') (PIOENV env)"
  let ?fd = "path_join (PROJECT_DIR env) ''firmware''"
  let ?fw = "\<lparr>source = path_join ?bd ''firmware.bin'', dest = path_join ?fd ''firmware.bin'',
    name = ''Main firmware''\<rparr>"
  let ?sp = "\<lparr>source = path_join ?bd ''spiffs.bin'', dest = path_join ?fd ''spiffs.bin'',
    name = ''SPIFFS filesystem''\<rparr>"
  let ?w0 = "(print_line Banner (print_line Rule v))\<lparr>fsys := s\<rparr>"
  let ?wb = "print_line (Not_found ''Main firmware'' ''firmware.bin'') ?w0"
  let ?wc = "print_line (Not_found ''SPIFFS filesystem'' ''spiffs.bin'') ?wb"
  assume "path_mkdir lib ?fd (fsys v) = (Inr u, s) \<and>
    path_exists lib (path_join ?bd ''firmware.bin'') s = Inr False \<and>
    path_exists lib (path_join ?bd ''spiffs.bin'') s = Inr False"
  then have mk: "path_mkdir lib ?fd (fsys v) = (Inr u, s)"
    and no1: "path_exists lib (path_join ?bd ''firmware.bin'') s = Inr False"
    and no2: "path_exists lib (path_join ?bd ''spiffs.bin'') s = Inr False"
    by simp_all
  have one: "loop_body lib ?fw 0 ?w0 = (Inr 0, ?wb)"
    using loop_body_when_missing [of lib ?fw ?w0 0] no1
    by (simp add: path_name_def path_join_def)
  have two: "loop_body lib ?sp 0 ?wb = (Inr 0, ?wc)"
    using loop_body_when_missing [of lib ?sp ?wb 0] no2
    by (simp add: print_line_def path_name_def path_join_def)
  from mk one two show "pb_copy_firmware_files lib env v = (Inr None, print_summary 0 ?wc)"
    by (rule pb_copy_firmware_files_run)
qed

theorem missing_project_dir_aborts_witness:
  "\<not> is_dir (fsys (start fs_root)) (path_parent (path_parent ex_script)) \<and>
   \<not> is_dir (fsys (start fs_root)) (PROJECT_DIR ex_env) \<and>
   copy_firmware_files posix ex_script (start fs_root) =
     (Inl FileNotFoundError, print_line Banner (print_line Rule (start fs_root))) \<and>
   pb_copy_firmware_files posix ex_env (start fs_root) =
     (Inl FileNotFoundError, print_line Banner (print_line Rule (start fs_root))) \<and>
   path_mkdir posix ex_firmware fs_root = (Inl FileNotFoundError, fs_root) \<and>
   path_mkdir posix ex_firmware fs_checkout = (Inr (), fs_checkout(ex_firmware \<mapsto> Dir True)) \<and>
   path_exists posix (ex_build @ [''firmware.bin'']) (fs_checkout(ex_firmware \<mapsto> Dir True)) =
     Inr False \<and>
   path_exists posix (ex_build @ [''spiffs.bin'']) (fs_checkout(ex_firmware \<mapsto> Dir True)) =
     Inr False \<and>
   copy_firmware_files posix ex_script (start fs_checkout) =
     (Inr 0, \<lparr>fsys = fs_checkout(ex_firmware \<mapsto> Dir True),
        stdout = [Rule, Banner, Not_found ''Main firmware'' ''firmware.bin'',
          Not_found ''SPIFFS filesystem'' ''spiffs.bin'', No_files_copied, Rule]\<rparr>) \<and>
   pb_copy_firmware_files posix ex_env (start fs_checkout) =
     (Inr None, \<lparr>fsys = fs_checkout(ex_firmware \<mapsto> Dir True),
        stdout = [Rule, Banner, Not_found ''Main firmware'' ''firmware.bin'',
          Not_found ''SPIFFS filesystem'' ''spiffs.bin'', No_files_copied, Rule]\<rparr>)"
proof -
  let ?s = "fs_checkout(ex_firmware \<mapsto> Dir True)"
  have missing: "\<not> is_dir (fsys (start fs_root)) (path_parent (path_parent ex_script))"
    "\<not> is_dir (fsys (start fs_root)) (PROJECT_DIR ex_env)"
    by (simp_all add: is_dir_def path_parent_def example_defs fs_root_def)
  have raised: "fst (copy_firmware_files posix ex_script (start fs_root)) = Inl FileNotFoundError"
    "fst (pb_copy_firmware_files posix ex_env (start fs_root)) = Inl FileNotFoundError"
    by (simp_all add: run_defs posix_defs example_defs fs_root_def Let_def)
  note aborts = missing_project_dir_aborts [where w = "start fs_root" and sf = ex_script
      and env = ex_env and lib = posix and v = "start fs_root" and x = FileNotFoundError]
  from aborts missing(1) obtain e1 where "copy_firmware_files posix ex_script (start fs_root) =
      (Inl e1, print_line Banner (print_line Rule (start fs_root)))"
    by blast
  with raised(1) have one: "copy_firmware_files posix ex_script (start fs_root) =
      (Inl FileNotFoundError, print_line Banner (print_line Rule (start fs_root)))"
    by simp
  from aborts missing(2) obtain e2 where "pb_copy_firmware_files posix ex_env (start fs_root) =
      (Inl e2, print_line Banner (print_line Rule (start fs_root)))"
    by blast
  with raised(2) have two: "pb_copy_firmware_files posix ex_env (start fs_root) =
      (Inl FileNotFoundError, print_line Banner (print_line Rule (start fs_root)))"
    by simp
  have paths: "path_join (path_parent (path_parent ex_script)) ''firmware'' = ex_firmware"
    "path_join (PROJECT_DIR ex_env) ''firmware'' = ex_firmware"
    "path_join (path_join (path_join (path_parent (path_parent ex_script)) ''.pio'') ''build'')
       ''esp32doit-devkit-v1'' = ex_build"
    "path_join (path_join (path_join (PROJECT_DIR ex_env) ''.pio'') ''build'') (PIOENV ex_env) =
       ex_build"
    by (simp_all add: run_defs example_defs)
  have no_parent: "path_mkdir posix ex_firmware fs_root = (Inl FileNotFoundError, fs_root)"
    by (simp add: posix_defs example_defs fs_root_def path_parent_def)
  have made: "path_mkdir posix ex_firmware (fsys (start fs_checkout)) = (Inr (), ?s)"
    by (simp add: posix_defs example_defs path_parent_def)
  have absent: "path_exists posix (path_join ex_build ''firmware.bin'') ?s = Inr False"
    "path_exists posix (path_join ex_build ''spiffs.bin'') ?s = Inr False"
    by (simp_all add: posix_defs example_defs path_join_def)
  note returns = missing_project_dir_aborts [where sf = ex_script and env = ex_env
      and lib = posix and v = "start fs_checkout" and u = "()" and s = ?s, unfolded paths]
  from returns made absent
  have three: "copy_firmware_files posix ex_script (start fs_checkout) =
      (Inr 0, print_summary 0
         (print_line (Not_found ''SPIFFS filesystem'' ''spiffs.bin'')
            (print_line (Not_found ''Main firmware'' ''firmware.bin'')
               ((print_line Banner (print_line Rule (start fs_checkout)))\<lparr>fsys := ?s\<rparr>))))"
    by blast
  from returns made absent
  have four: "pb_copy_firmware_files posix ex_env (start fs_checkout) =
      (Inr None, print_summary 0
         (print_line (Not_found ''SPIFFS filesystem'' ''spiffs.bin'')
            (print_line (Not_found ''Main firmware'' ''firmware.bin'')
               ((print_line Banner (print_line Rule (start fs_checkout)))\<lparr>fsys := ?s\<rparr>))))"
    by blast
  from missing one two no_parent made absent three four show ?thesis
    by (simp add: print_summary_def print_line_def start_def path_join_def)
qed

end
